theory Spec2Isabelle
  imports Main "HOL-Library.AList" "HOL-Library.Word" "HOL-Library.Monad_Syntax"
begin

section \<open>The record schema of the local relational store\<close>

text \<open>
  The store of \<^verbatim>\<open>databaseServiceFixed.ts\<close> keeps every table as a plain object
  \<^verbatim>\<open>{ [key: string]: T }\<close>. A table is modelled as an association list in the iteration
  order of \<^verbatim>\<open>Object.keys\<close>: its rows are the object's own properties, the assignment
  \<^verbatim>\<open>t[k] = v\<close> is \<open>AList.update k v t\<close> (an existing key keeps its place, a new key goes
  to the end, as it does for a key that is not an array index: the generated ids are
  not) and \<^verbatim>\<open>delete t[k]\<close> is \<open>AList.delete k t\<close>. The property names of an object
  are distinct; \<open>distinct (map fst t)\<close> states it where a result depends on it. Reading
  \<^verbatim>\<open>t[k]\<close> is \<open>table_get t k\<close> below: a plain object also answers to the names it
  inherits.

  Wall-clock readings (\<^verbatim>\<open>new Date().toISOString()\<close>) and fresh identifiers
  (\<^verbatim>\<open>generateId()\<close>) are arguments of the operations that take them; an operation uses
  one clock reading \<open>now\<close>. The reading \<^verbatim>\<open>new Date(s).getTime()\<close> of a stored timestamp
  is the argument \<open>tm\<close> of the queries that sort by date. A text written by
  \<^verbatim>\<open>JSON.stringify\<close> and read back by \<^verbatim>\<open>JSON.parse\<close> is represented by the value it
  encodes. The mirror of the store in \<^verbatim>\<open>localStorage\<close> is write-only for the operations
  below and is left out.
\<close>

type_synonym 'a DatabaseTable = "(string \<times> 'a) list"

datatype TenantStatus = TenantPending | TenantApproved | TenantRejected

datatype Role = ProductAdmin | Admin | User

datatype UserStatus = Active | Pending | Suspended

datatype ChoiceType = Radio | MultipleChoice

datatype CorrectAnswer = Single string | Multiple "string list"

record TenantSettings =
  allowUserRegistration :: bool
  maxAdmins :: int
  maxUsers :: int
  maxQuizzes :: int

record TenantRecord =
  tn_id :: string
  tn_name :: string
  tn_description :: string
  tn_domain :: "string option"
  tn_status :: TenantStatus
  tn_is_active :: bool
  tn_created_by :: string
  tn_created_at :: string
  tn_updated_at :: string
  tn_approved_by :: "string option"
  tn_approved_at :: "string option"
  tn_rejection_reason :: "string option"
  tn_settings_json :: TenantSettings

record UserRecord =
  ur_id :: string
  ur_name :: string
  ur_email :: string
  ur_password_hash :: string
  ur_role :: Role
  ur_tenant_id :: "string option"
  ur_status :: UserStatus
  ur_created_at :: string

record QuizSetRecord =
  qs_id :: string
  qs_name :: string
  qs_description :: string
  qs_is_published :: bool
  qs_tenant_id :: "string option"
  qs_created_by :: string
  qs_created_at :: string
  qs_updated_at :: string

record QuizQuestionRecord =
  qq_id :: string
  qq_quiz_set_id :: string
  qq_image_url :: string
  qq_image_desc :: string
  qq_question :: string
  qq_choice_type :: ChoiceType
  qq_options_json :: "string list"
  qq_correct_answer_json :: CorrectAnswer
  qq_order_index :: int

record UserAttemptRecord =
  ua_id :: string
  ua_user_id :: string
  ua_tenant_id :: "string option"
  ua_quiz_set_id :: string
  ua_score :: int
  ua_total_questions :: int
  ua_percentage :: int
  ua_time_remaining :: int
  ua_time_taken :: int
  ua_completed_at :: string
  ua_quiz_type :: string

record AttemptAnswerRecord =
  aa_id :: string
  aa_attempt_id :: string
  aa_question_id :: string
  aa_user_answer_json :: "string list"
  aa_is_correct :: bool

record UserSessionRecord =
  us_id :: string
  us_user_id :: string

record MetadataRecord =
  md_version :: string
  md_last_updated :: string

record DatabaseSchema =
  tenants :: "TenantRecord DatabaseTable"
  users :: "UserRecord DatabaseTable"
  quiz_sets :: "QuizSetRecord DatabaseTable"
  quiz_questions :: "QuizQuestionRecord DatabaseTable"
  user_attempts :: "UserAttemptRecord DatabaseTable"
  attempt_answers :: "AttemptAnswerRecord DatabaseTable"
  user_sessions :: "UserSessionRecord DatabaseTable"
  metadata :: "MetadataRecord DatabaseTable"

section \<open>The objects of \<^verbatim>\<open>types.ts\<close> handed to callers\<close>

record QuizQuestion =
  imageurl :: string
  imagedesc :: string
  question :: string
  choice_type :: ChoiceType
  options :: "string list"
  correct_answer :: CorrectAnswer

record Tenant =
  tenant_id :: string
  tenant_name :: string
  tenant_description :: string
  tenant_domain :: "string option"
  tenant_status :: TenantStatus
  tenant_isActive :: bool
  tenant_createdBy :: string
  tenant_createdAt :: string
  tenant_updatedAt :: string
  tenant_approvedBy :: "string option"
  tenant_approvedAt :: "string option"
  tenant_rejectionReason :: "string option"
  tenant_settings :: TenantSettings

record User =
  user_id :: string
  user_name :: string
  user_email :: string
  user_role :: Role
  user_tenantId :: "string option"
  user_status :: UserStatus
  user_createdAt :: string

record TestAnswer =
  questionIndex :: int
  answer_question :: string
  selectedAnswers :: "string list"
  correctAnswers :: "string list"
  isCorrect :: bool

record TestResult =
  result_id :: string
  result_userId :: string
  result_tenantId :: "string option"
  result_userName :: string
  result_userEmail :: string
  result_score :: int
  result_totalQuestions :: int
  result_percentage :: int
  result_timeRemaining :: int
  result_timeTaken :: int
  result_completedAt :: string
  result_quizType :: string
  result_questionsUsed :: "QuizQuestion list"
  result_answers :: "TestAnswer list"

record QuizSet =
  quiz_id :: string
  quiz_name :: string
  quiz_description :: string
  quiz_questions_list :: "QuizQuestion list"
  quiz_isPublished :: bool
  quiz_tenantId :: "string option"
  quiz_createdBy :: string
  quiz_createdAt :: string
  quiz_updatedAt :: string

text \<open>
  \<^verbatim>\<open>Partial<Tenant>\<close>, the argument of \<^verbatim>\<open>updateTenant\<close>: a field is \<open>None\<close> when it
  is \<^verbatim>\<open>undefined\<close>. Only the fields that \<^verbatim>\<open>updateTenant\<close> reads are kept.
\<close>

record TenantUpdates =
  upd_name :: "string option"
  upd_description :: "string option"
  upd_domain :: "string option"
  upd_isActive :: "bool option"
  upd_settings :: "TenantSettings option"
  upd_updatedAt :: "string option"
  upd_status :: "TenantStatus option"
  upd_approvedBy :: "string option"
  upd_approvedAt :: "string option"
  upd_rejectionReason :: "string option"

text \<open>
  The argument of \<^verbatim>\<open>saveTestResult\<close>:
  \<^verbatim>\<open>Omit<TestResult, 'id'> & { quizSetId?: string }\<close>.
\<close>

record NewTestResult =
  new_userId :: string
  new_tenantId :: "string option"
  new_userName :: string
  new_userEmail :: string
  new_score :: int
  new_totalQuestions :: int
  new_percentage :: int
  new_timeRemaining :: int
  new_timeTaken :: int
  new_completedAt :: string
  new_quizType :: string
  new_questionsUsed :: "QuizQuestion list"
  new_answers :: "TestAnswer list"
  new_quizSetId :: "string option"

text \<open>
  A thrown \<^verbatim>\<open>new Error(message)\<close>, and the \<^verbatim>\<open>SyntaxError\<close> that \<^verbatim>\<open>JSON.parse\<close>
  throws. An operation returns its outcome together with the store it leaves behind, so
  that what a throwing call has already written is visible.
\<close>

datatype error = Error string | SyntaxError

abbreviation TenantHasUsers :: error where
  "TenantHasUsers \<equiv> Error ''Cannot delete tenant with existing users. Please remove all users first.''"

abbreviation TenantNotFound :: error where
  "TenantNotFound \<equiv> Error ''Tenant not found''"

abbreviation ProductAdminInTenant :: error where
  "ProductAdminInTenant \<equiv> Error ''Product admin cannot belong to a tenant''"

abbreviation TenantRequired :: error where
  "TenantRequired \<equiv> Error ''Admin and user roles must belong to a tenant''"

abbreviation DuplicateEmail :: error where
  "DuplicateEmail \<equiv> Error ''User with this email already exists''"

text \<open>
  The truth value JavaScript gives an optional string in a condition:
  \<^verbatim>\<open>undefined\<close> and the empty string are false.
\<close>

definition truthy :: "string option \<Rightarrow> bool" where
  "truthy s = (case s of None \<Rightarrow> False | Some v \<Rightarrow> v \<noteq> [])"

text \<open>
  The property read \<^verbatim>\<open>this.db.table[key]\<close>. Every table is an object literal or comes
  from \<^verbatim>\<open>JSON.parse\<close>, so its prototype is \<^verbatim>\<open>Object.prototype\<close>: at a key that is
  no property of its own the read gives what the table inherits under that name, a
  function or (for \<^verbatim>\<open>__proto__\<close>) the prototype itself, and \<^verbatim>\<open>undefined\<close> only at
  every other key. An inherited value is truthy and has none of the fields of a row.
\<close>

definition objectPrototypeNames :: "string list" where
  "objectPrototypeNames =
     [''constructor'', ''__defineGetter__'', ''__defineSetter__'', ''hasOwnProperty'',
      ''__lookupGetter__'', ''__lookupSetter__'', ''isPrototypeOf'', ''propertyIsEnumerable'',
      ''toString'', ''valueOf'', ''__proto__'', ''toLocaleString'']"

datatype 'a lookup = Own 'a | Inherited | Absent

definition table_get :: "'a DatabaseTable \<Rightarrow> string \<Rightarrow> 'a lookup" where
  "table_get t k =
     (case map_of t k of
        Some row \<Rightarrow> Own row
      | None \<Rightarrow> if k \<in> set objectPrototypeNames then Inherited else Absent)"

text \<open>
  \<^verbatim>\<open>getCurrentUser\<close>, \<^verbatim>\<open>getQuizSetById\<close> and \<^verbatim>\<open>getTestResults\<close> copy the fields of
  what they read into the object they return. They are modelled at the rows of the
  table, by \<open>map_of\<close>: the object they would build from an inherited value is no value
  of the types of \<^verbatim>\<open>types.ts\<close>.
\<close>

section \<open>The local relational store (\<^verbatim>\<open>LocalDatabaseService\<close>)\<close>

definition DB_VERSION :: string where
  "DB_VERSION = ''2.2.0''"

definition saveDatabase :: "string \<Rightarrow> DatabaseSchema \<Rightarrow> DatabaseSchema" where
  "saveDatabase now db =
     db\<lparr>metadata := AList.update ''main''
           \<lparr>md_version = DB_VERSION, md_last_updated = now\<rparr> (metadata db)\<rparr>"

subsection \<open>Password digest\<close>

definition digit36 :: "nat \<Rightarrow> char" where
  "digit36 d = ''0123456789abcdefghijklmnopqrstuvwxyz'' ! d"

text \<open>\<^verbatim>\<open>Number.prototype.toString(36)\<close> on a natural number.\<close>

function toString36 :: "nat \<Rightarrow> string" where
  "toString36 n =
     (if n < 36 then [digit36 n] else toString36 (n div 36) @ [digit36 (n mod 36)])"
  by pat_completeness auto
termination
  by (relation "measure (\<lambda>n. n)") auto

declare toString36.simps [simp del]

text \<open>
  \<^verbatim>\<open>hash = ((hash << 5) - hash) + char; hash = hash & hash\<close> keeps the low 32 bits, read
  as a signed integer: arithmetic on \<open>32 word\<close>. A character of the model is one code
  unit below 256.
\<close>

definition hashStep :: "char \<Rightarrow> 32 word \<Rightarrow> 32 word" where
  "hashStep c hash = (push_bit 5 hash - hash) + of_nat (of_char c)"

definition hashPassword :: "string \<Rightarrow> string" where
  "hashPassword password =
     (let salt = ''awsquiz2024'';
          combined = password @ salt;
          hash = fold hashStep combined 0
      in toString36 (nat \<bar>sint hash\<bar>))"

definition verifyPassword :: "string \<Rightarrow> string \<Rightarrow> bool" where
  "verifyPassword password hash = (hashPassword password = hash)"

subsection \<open>Tenants\<close>

definition tenant_of_record :: "TenantRecord \<Rightarrow> Tenant" where
  "tenant_of_record record =
     \<lparr>tenant_id = tn_id record,
      tenant_name = tn_name record,
      tenant_description = tn_description record,
      tenant_domain = tn_domain record,
      tenant_status = tn_status record,
      tenant_isActive = tn_is_active record,
      tenant_createdBy = tn_created_by record,
      tenant_createdAt = tn_created_at record,
      tenant_updatedAt = tn_updated_at record,
      tenant_approvedBy = tn_approved_by record,
      tenant_approvedAt = tn_approved_at record,
      tenant_rejectionReason = tn_rejection_reason record,
      tenant_settings = tn_settings_json record\<rparr>"

definition databaseService_createTenant ::
  "string \<Rightarrow> Tenant \<Rightarrow> DatabaseSchema \<Rightarrow> Tenant \<times> DatabaseSchema" where
  "databaseService_createTenant now tenant db =
     (tenant,
      saveDatabase now (db\<lparr>tenants := AList.update (tenant_id tenant)
        \<lparr>tn_id = tenant_id tenant,
         tn_name = tenant_name tenant,
         tn_description = tenant_description tenant,
         tn_domain = tenant_domain tenant,
         tn_status = tenant_status tenant,
         tn_is_active = tenant_isActive tenant,
         tn_created_by = tenant_createdBy tenant,
         tn_created_at = tenant_createdAt tenant,
         tn_updated_at = tenant_updatedAt tenant,
         tn_approved_by = tenant_approvedBy tenant,
         tn_approved_at = tenant_approvedAt tenant,
         tn_rejection_reason = tenant_rejectionReason tenant,
         tn_settings_json = tenant_settings tenant\<rparr> (tenants db)\<rparr>))"

text \<open>
  \<^verbatim>\<open>getTenant\<close>. An inherited value passes \<^verbatim>\<open>if (!record)\<close>; its
  \<^verbatim>\<open>settings_json\<close> is \<^verbatim>\<open>undefined\<close>, and \<^verbatim>\<open>JSON.parse(undefined)\<close> throws.
\<close>

definition databaseService_getTenant ::
  "string \<Rightarrow> DatabaseSchema \<Rightarrow> error + Tenant option" where
  "databaseService_getTenant id' db =
     (case table_get (tenants db) id' of
        Absent \<Rightarrow> Inr None
      | Own record \<Rightarrow> Inr (Some (tenant_of_record record))
      | Inherited \<Rightarrow> Inl SyntaxError)"

text \<open>One \<^verbatim>\<open>if (updates.f !== undefined) existingTenant.g = updates.f\<close>.\<close>

definition assign_if :: "'v option \<Rightarrow> ('v \<Rightarrow> 'r \<Rightarrow> 'r) \<Rightarrow> 'r \<Rightarrow> 'r" where
  "assign_if v f r = (case v of None \<Rightarrow> r | Some x \<Rightarrow> f x r)"

definition applyTenantUpdates :: "TenantUpdates \<Rightarrow> TenantRecord \<Rightarrow> TenantRecord" where
  "applyTenantUpdates updates existingTenant =
     (assign_if (upd_rejectionReason updates) (\<lambda>v r. r\<lparr>tn_rejection_reason := Some v\<rparr>)
     (assign_if (upd_approvedAt updates) (\<lambda>v r. r\<lparr>tn_approved_at := Some v\<rparr>)
     (assign_if (upd_approvedBy updates) (\<lambda>v r. r\<lparr>tn_approved_by := Some v\<rparr>)
     (assign_if (upd_status updates) (\<lambda>v r. r\<lparr>tn_status := v\<rparr>)
     (assign_if (upd_updatedAt updates) (\<lambda>v r. r\<lparr>tn_updated_at := v\<rparr>)
     (assign_if (upd_settings updates) (\<lambda>v r. r\<lparr>tn_settings_json := v\<rparr>)
     (assign_if (upd_isActive updates) (\<lambda>v r. r\<lparr>tn_is_active := v\<rparr>)
     (assign_if (upd_domain updates) (\<lambda>v r. r\<lparr>tn_domain := Some v\<rparr>)
     (assign_if (upd_description updates) (\<lambda>v r. r\<lparr>tn_description := v\<rparr>)
     (assign_if (upd_name updates) (\<lambda>v r. r\<lparr>tn_name := v\<rparr>)
        existingTenant))))))))))"

text \<open>
  \<^verbatim>\<open>updateTenant\<close>. At an inherited value the assignments go to that value, not to the
  store; the store is saved and the closing \<^verbatim>\<open>getTenant(id)\<close> throws. This is what
  the source does for updates that leave \<^verbatim>\<open>name\<close> and \<^verbatim>\<open>settings\<close> alone, as those
  of \<^verbatim>\<open>approveTenant\<close> and \<^verbatim>\<open>rejectTenant\<close> do; other updates at an inherited name
  are not followed.
\<close>

definition databaseService_updateTenant ::
  "string \<Rightarrow> string \<Rightarrow> TenantUpdates \<Rightarrow> DatabaseSchema
     \<Rightarrow> (error + Tenant option) \<times> DatabaseSchema" where
  "databaseService_updateTenant now id' updates db =
     (case table_get (tenants db) id' of
        Absent \<Rightarrow> (Inr None, db)
      | Own existingTenant \<Rightarrow>
          (let db' = saveDatabase now
                 (db\<lparr>tenants := AList.update id' (applyTenantUpdates updates existingTenant)
                                   (tenants db)\<rparr>)
           in (databaseService_getTenant id' db', db'))
      | Inherited \<Rightarrow>
          (let db' = saveDatabase now db
           in (databaseService_getTenant id' db', db')))"

text \<open>
  \<^verbatim>\<open>deleteTenant\<close>. \<^verbatim>\<open>if (!this.db.tenants[id]) return false\<close> lets an inherited
  value through; \<^verbatim>\<open>delete\<close> then finds no property of the table to remove.
\<close>

definition databaseService_deleteTenant ::
  "string \<Rightarrow> string \<Rightarrow> DatabaseSchema \<Rightarrow> bool \<times> DatabaseSchema" where
  "databaseService_deleteTenant now id' db =
     (case table_get (tenants db) id' of
        Absent \<Rightarrow> (False, db)
      | _ \<Rightarrow> (True, saveDatabase now (db\<lparr>tenants := AList.delete id' (tenants db)\<rparr>)))"

subsection \<open>Users and the session\<close>

definition user_of_record :: "UserRecord \<Rightarrow> User" where
  "user_of_record record =
     \<lparr>user_id = ur_id record,
      user_name = ur_name record,
      user_email = ur_email record,
      user_role = ur_role record,
      user_tenantId = ur_tenant_id record,
      user_status = ur_status record,
      user_createdAt = ur_created_at record\<rparr>"

definition databaseService_createUser ::
  "string \<Rightarrow> string \<Rightarrow> string \<Rightarrow> string \<Rightarrow> string \<Rightarrow> Role \<Rightarrow> string option \<Rightarrow> DatabaseSchema
     \<Rightarrow> (error + User) \<times> DatabaseSchema" where
  "databaseService_createUser now userId name email password role tenantId db =
     (case find (\<lambda>u. ur_email u = email) (map snd (users db)) of
        Some existingUser \<Rightarrow> (Inl DuplicateEmail, db)
      | None \<Rightarrow>
          (Inr \<lparr>user_id = userId, user_name = name, user_email = email, user_role = role,
                user_tenantId = tenantId, user_status = Active, user_createdAt = now\<rparr>,
           saveDatabase now (db\<lparr>users := AList.update userId
             \<lparr>ur_id = userId, ur_name = name, ur_email = email,
              ur_password_hash = hashPassword password, ur_role = role,
              ur_tenant_id = tenantId, ur_status = Active, ur_created_at = now\<rparr>
             (users db)\<rparr>)))"

definition databaseService_createUserWithStatus ::
  "string \<Rightarrow> User \<Rightarrow> string \<Rightarrow> DatabaseSchema \<Rightarrow> (error + User) \<times> DatabaseSchema" where
  "databaseService_createUserWithStatus now user password db =
     (case find (\<lambda>u. ur_email u = user_email user) (map snd (users db)) of
        Some existingUser \<Rightarrow> (Inl DuplicateEmail, db)
      | None \<Rightarrow>
          (Inr user,
           saveDatabase now (db\<lparr>users := AList.update (user_id user)
             \<lparr>ur_id = user_id user, ur_name = user_name user, ur_email = user_email user,
              ur_password_hash = hashPassword password, ur_role = user_role user,
              ur_tenant_id = user_tenantId user, ur_status = user_status user,
              ur_created_at = user_createdAt user\<rparr>
             (users db)\<rparr>)))"

definition databaseService_loginUser ::
  "string \<Rightarrow> string \<Rightarrow> string \<Rightarrow> string \<Rightarrow> DatabaseSchema \<Rightarrow> User option \<times> DatabaseSchema" where
  "databaseService_loginUser now sessionId email password db =
     (case find (\<lambda>u. ur_email u = email) (map snd (users db)) of
        None \<Rightarrow> (None, db)
      | Some userRecord \<Rightarrow>
          if verifyPassword password (ur_password_hash userRecord) then
            (let user = user_of_record userRecord;
                 db1 = db\<lparr>user_sessions := []\<rparr>;
                 db2 = db1\<lparr>user_sessions := AList.update sessionId
                          \<lparr>us_id = sessionId, us_user_id = user_id user\<rparr> (user_sessions db1)\<rparr>
             in (Some user, saveDatabase now db2))
          else (None, db))"

definition databaseService_logoutUser :: "string \<Rightarrow> DatabaseSchema \<Rightarrow> DatabaseSchema" where
  "databaseService_logoutUser now db = saveDatabase now (db\<lparr>user_sessions := []\<rparr>)"

definition databaseService_getCurrentUser :: "DatabaseSchema \<Rightarrow> User option" where
  "databaseService_getCurrentUser db =
     (case map snd (user_sessions db) of
        [] \<Rightarrow> None
      | session # _ \<Rightarrow>
          (case map_of (users db) (us_user_id session) of
             None \<Rightarrow> None
           | Some userRecord \<Rightarrow> Some (user_of_record userRecord)))"

text \<open>
  \<^verbatim>\<open>sort((a, b) => t(b) - t(a))\<close> is a stable sort, latest first: \<open>sort_key\<close> on
  the negated reading.
\<close>

definition databaseService_getUsers :: "(string \<Rightarrow> int) \<Rightarrow> DatabaseSchema \<Rightarrow> User list" where
  "databaseService_getUsers tm db =
     map user_of_record (sort_key (\<lambda>r. - tm (ur_created_at r)) (map snd (users db)))"

text \<open>
  \<^verbatim>\<open>updateUserStatus\<close>. At an inherited value \<^verbatim>\<open>userRecord.status = status\<close> writes
  to that value and no row changes; the store is saved and the result is true.
\<close>

definition databaseService_updateUserStatus ::
  "string \<Rightarrow> string \<Rightarrow> UserStatus \<Rightarrow> DatabaseSchema \<Rightarrow> bool \<times> DatabaseSchema" where
  "databaseService_updateUserStatus now userId status db =
     (case table_get (users db) userId of
        Absent \<Rightarrow> (False, db)
      | Own userRecord \<Rightarrow>
          (True, saveDatabase now
             (db\<lparr>users := AList.update userId (userRecord\<lparr>ur_status := status\<rparr>) (users db)\<rparr>))
      | Inherited \<Rightarrow> (True, saveDatabase now db))"

subsection \<open>Quiz sets\<close>

definition question_of_record :: "QuizQuestionRecord \<Rightarrow> QuizQuestion" where
  "question_of_record record =
     \<lparr>imageurl = qq_image_url record,
      imagedesc = qq_image_desc record,
      question = qq_question record,
      choice_type = qq_choice_type record,
      options = qq_options_json record,
      correct_answer = qq_correct_answer_json record\<rparr>"

text \<open>
  The callback of \<^verbatim>\<open>Object.keys(this.db.quiz_questions).forEach\<close> in
  \<^verbatim>\<open>deleteQuizSet\<close>. It reads the table as it is when the key is visited; the keys were
  collected before the loop, and a step deletes no key but its own.
\<close>

definition deleteQuestionOf ::
  "string \<Rightarrow> string \<Rightarrow> QuizQuestionRecord DatabaseTable \<Rightarrow> QuizQuestionRecord DatabaseTable" where
  "deleteQuestionOf id' questionId questions =
     (case map_of questions questionId of
        None \<Rightarrow> questions
      | Some q \<Rightarrow> if qq_quiz_set_id q = id' then AList.delete questionId questions else questions)"

text \<open>
  \<^verbatim>\<open>deleteQuizSet\<close>. \<^verbatim>\<open>if (!this.db.quiz_sets[id]) return false\<close> lets an inherited
  value through: the questions that name the id are deleted, \<^verbatim>\<open>delete\<close> finds no
  quiz set to remove, the store is saved and the result is true.
\<close>

definition databaseService_deleteQuizSet ::
  "string \<Rightarrow> string \<Rightarrow> DatabaseSchema \<Rightarrow> bool \<times> DatabaseSchema" where
  "databaseService_deleteQuizSet now id' db =
     (case table_get (quiz_sets db) id' of
        Absent \<Rightarrow> (False, db)
      | _ \<Rightarrow>
          (let db1 = db\<lparr>quiz_questions :=
                  fold (deleteQuestionOf id') (map fst (quiz_questions db)) (quiz_questions db)\<rparr>;
               db2 = db1\<lparr>quiz_sets := AList.delete id' (quiz_sets db1)\<rparr>
           in (True, saveDatabase now db2)))"

definition getQuizSetById :: "string \<Rightarrow> DatabaseSchema \<Rightarrow> QuizSet option" where
  "getQuizSetById id' db =
     (case map_of (quiz_sets db) id' of
        None \<Rightarrow> None
      | Some quizRecord \<Rightarrow>
          (let questionRecords =
                 sort_key qq_order_index
                   (filter (\<lambda>q. qq_quiz_set_id q = id') (map snd (quiz_questions db)))
           in Some \<lparr>quiz_id = qs_id quizRecord,
                    quiz_name = qs_name quizRecord,
                    quiz_description = qs_description quizRecord,
                    quiz_questions_list = map question_of_record questionRecords,
                    quiz_isPublished = qs_is_published quizRecord,
                    quiz_tenantId = qs_tenant_id quizRecord,
                    quiz_createdBy = qs_created_by quizRecord,
                    quiz_createdAt = qs_created_at quizRecord,
                    quiz_updatedAt = qs_updated_at quizRecord\<rparr>))"

text \<open>\<^verbatim>\<open>.map(record => this.getQuizSetById(record.id)!).filter(Boolean)\<close> drops the nulls.\<close>

definition databaseService_getQuizSets :: "(string \<Rightarrow> int) \<Rightarrow> DatabaseSchema \<Rightarrow> QuizSet list" where
  "databaseService_getQuizSets tm db =
     List.map_filter (\<lambda>record. getQuizSetById (qs_id record) db)
       (sort_key (\<lambda>r. - tm (qs_updated_at r)) (map snd (quiz_sets db)))"

definition databaseService_getPublishedQuizzes ::
  "(string \<Rightarrow> int) \<Rightarrow> DatabaseSchema \<Rightarrow> QuizSet list" where
  "databaseService_getPublishedQuizzes tm db =
     List.map_filter (\<lambda>record. getQuizSetById (qs_id record) db)
       (sort_key (\<lambda>r. - tm (qs_updated_at r))
          (filter qs_is_published (map snd (quiz_sets db))))"

subsection \<open>Test results\<close>

text \<open>
  The quiz set an attempt is attributed to. \<^verbatim>\<open>if (result.quizSetId)\<close> tests the
  truth value of the optional string.
\<close>

definition resolveQuizSetId :: "NewTestResult \<Rightarrow> DatabaseSchema \<Rightarrow> string" where
  "resolveQuizSetId result db =
     (case (if truthy (new_quizSetId result) then new_quizSetId result else None) of
        Some quizSetId \<Rightarrow> quizSetId
      | None \<Rightarrow>
          if new_quizType result = ''default'' then
            (case filter qs_is_published (map snd (quiz_sets db)) of
               [] \<Rightarrow> ''default''
             | first # _ \<Rightarrow> qs_id first)
          else ''default'')"

text \<open>\<^verbatim>\<open>result.quizType || 'default'\<close>.\<close>

definition quizTypeOrDefault :: "string \<Rightarrow> string" where
  "quizTypeOrDefault quizType = (if quizType = [] then ''default'' else quizType)"

definition databaseService_saveTestResult ::
  "string \<Rightarrow> string \<Rightarrow> NewTestResult \<Rightarrow> DatabaseSchema \<Rightarrow> TestResult \<times> DatabaseSchema" where
  "databaseService_saveTestResult now attemptId result db =
     (let quizSetId = resolveQuizSetId result db;
          db1 = db\<lparr>user_attempts := AList.update attemptId
                  \<lparr>ua_id = attemptId,
                   ua_user_id = new_userId result,
                   ua_tenant_id = new_tenantId result,
                   ua_quiz_set_id = quizSetId,
                   ua_score = new_score result,
                   ua_total_questions = new_totalQuestions result,
                   ua_percentage = new_percentage result,
                   ua_time_remaining = new_timeRemaining result,
                   ua_time_taken = new_timeTaken result,
                   ua_completed_at = new_completedAt result,
                   ua_quiz_type = quizTypeOrDefault (new_quizType result)\<rparr>
                  (user_attempts db)\<rparr>
      in (\<lparr>result_id = attemptId,
            result_userId = new_userId result,
            result_tenantId = new_tenantId result,
            result_userName = new_userName result,
            result_userEmail = new_userEmail result,
            result_score = new_score result,
            result_totalQuestions = new_totalQuestions result,
            result_percentage = new_percentage result,
            result_timeRemaining = new_timeRemaining result,
            result_timeTaken = new_timeTaken result,
            result_completedAt = new_completedAt result,
            result_quizType = quizTypeOrDefault (new_quizType result),
            result_questionsUsed = new_questionsUsed result,
            result_answers = new_answers result\<rparr>,
          saveDatabase now db1))"

definition result_of_record :: "DatabaseSchema \<Rightarrow> UserAttemptRecord \<Rightarrow> TestResult" where
  "result_of_record db record =
     (let userRecord = map_of (users db) (ua_user_id record)
      in \<lparr>result_id = ua_id record,
           result_userId = ua_user_id record,
           result_tenantId = ua_tenant_id record,
           result_userName =
             (case userRecord of Some u \<Rightarrow> ur_name u | None \<Rightarrow> ''Unknown User''),
           result_userEmail =
             (case userRecord of Some u \<Rightarrow> ur_email u | None \<Rightarrow> ''unknown@example.com''),
           result_score = ua_score record,
           result_totalQuestions = ua_total_questions record,
           result_percentage = ua_percentage record,
           result_timeRemaining = ua_time_remaining record,
           result_timeTaken = ua_time_taken record,
           result_completedAt = ua_completed_at record,
           result_quizType = ua_quiz_type record,
           result_questionsUsed = [],
           result_answers = []\<rparr>)"

definition databaseService_getTestResults ::
  "(string \<Rightarrow> int) \<Rightarrow> DatabaseSchema \<Rightarrow> TestResult list" where
  "databaseService_getTestResults tm db =
     map (result_of_record db)
       (sort_key (\<lambda>r. - tm (ua_completed_at r)) (map snd (user_attempts db)))"

definition databaseService_deleteTestResult ::
  "string \<Rightarrow> string \<Rightarrow> DatabaseSchema \<Rightarrow> bool \<times> DatabaseSchema" where
  "databaseService_deleteTestResult now id' db =
     (case table_get (user_attempts db) id' of
        Absent \<Rightarrow> (False, db)
      | _ \<Rightarrow>
          (True, saveDatabase now (db\<lparr>user_attempts := AList.delete id' (user_attempts db)\<rparr>)))"

text \<open>
  \<^verbatim>\<open>Math.max(...xs)\<close> on whole numbers. On no argument JavaScript gives \<open>-Infinity\<close>,
  which is \<open>None\<close> here; \<^verbatim>\<open>getUserBestScoreForQuiz\<close> returns before it gets there.
\<close>

fun Math_max :: "int list \<Rightarrow> int option" where
  "Math_max [] = None"
| "Math_max (x # xs) = Some (fold max xs x)"

definition databaseService_getUserBestScoreForQuiz ::
  "string \<Rightarrow> string \<Rightarrow> DatabaseSchema \<Rightarrow> int option" where
  "databaseService_getUserBestScoreForQuiz userId quizSetId db =
     (let userAttempts =
            filter (\<lambda>attempt. ua_user_id attempt = userId \<and> ua_quiz_set_id attempt = quizSetId)
              (map snd (user_attempts db))
      in if length userAttempts = 0 then None
         else Math_max (map ua_percentage userAttempts))"

section \<open>The tenant-scoping adapter (\<^verbatim>\<open>DataServiceAdapter\<close>)\<close>

definition noUpdates :: TenantUpdates where
  "noUpdates =
     \<lparr>upd_name = None, upd_description = None, upd_domain = None, upd_isActive = None,
      upd_settings = None, upd_updatedAt = None, upd_status = None, upd_approvedBy = None,
      upd_approvedAt = None, upd_rejectionReason = None\<rparr>"

definition dataService_getTenant :: "string \<Rightarrow> DatabaseSchema \<Rightarrow> error + Tenant option" where
  "dataService_getTenant id' db = databaseService_getTenant id' db"

definition dataService_updateTenant ::
  "string \<Rightarrow> string \<Rightarrow> TenantUpdates \<Rightarrow> DatabaseSchema
     \<Rightarrow> (error + Tenant option) \<times> DatabaseSchema" where
  "dataService_updateTenant now id' updates db =
     databaseService_updateTenant now id' (updates\<lparr>upd_updatedAt := Some now\<rparr>) db"

definition dataService_getUsers :: "(string \<Rightarrow> int) \<Rightarrow> DatabaseSchema \<Rightarrow> User list" where
  "dataService_getUsers tm db = databaseService_getUsers tm db"

definition dataService_getUsersByTenant ::
  "(string \<Rightarrow> int) \<Rightarrow> string \<Rightarrow> DatabaseSchema \<Rightarrow> User list" where
  "dataService_getUsersByTenant tm tenantId db =
     filter (\<lambda>user. user_tenantId user = Some tenantId) (databaseService_getUsers tm db)"

definition dataService_deleteQuizSet ::
  "string \<Rightarrow> string \<Rightarrow> DatabaseSchema \<Rightarrow> bool \<times> DatabaseSchema" where
  "dataService_deleteQuizSet now id' db = databaseService_deleteQuizSet now id' db"

text \<open>\<^verbatim>\<open>if (tenantId)\<close>: an absent or empty tenant id asks for the system-wide list.\<close>

definition dataService_getQuizSets ::
  "(string \<Rightarrow> int) \<Rightarrow> string option \<Rightarrow> DatabaseSchema \<Rightarrow> QuizSet list" where
  "dataService_getQuizSets tm tenantId db =
     (let allQuizSets = databaseService_getQuizSets tm db
      in if truthy tenantId then filter (\<lambda>quiz. quiz_tenantId quiz = tenantId) allQuizSets
         else allQuizSets)"

definition dataService_getQuizSetsByTenant ::
  "(string \<Rightarrow> int) \<Rightarrow> string \<Rightarrow> DatabaseSchema \<Rightarrow> QuizSet list" where
  "dataService_getQuizSetsByTenant tm tenantId db = dataService_getQuizSets tm (Some tenantId) db"

definition dataService_getTestResults ::
  "(string \<Rightarrow> int) \<Rightarrow> string option \<Rightarrow> DatabaseSchema \<Rightarrow> TestResult list" where
  "dataService_getTestResults tm tenantId db =
     (let allResults = databaseService_getTestResults tm db
      in if truthy tenantId then filter (\<lambda>result. result_tenantId result = tenantId) allResults
         else allResults)"

definition dataService_getTestResultsByTenant ::
  "(string \<Rightarrow> int) \<Rightarrow> string \<Rightarrow> DatabaseSchema \<Rightarrow> TestResult list" where
  "dataService_getTestResultsByTenant tm tenantId db =
     dataService_getTestResults tm (Some tenantId) db"

definition dataService_deleteTenant ::
  "(string \<Rightarrow> int) \<Rightarrow> string \<Rightarrow> string \<Rightarrow> DatabaseSchema \<Rightarrow> (error + bool) \<times> DatabaseSchema" where
  "dataService_deleteTenant tm now id' db =
     (let tenantUsers = dataService_getUsersByTenant tm id' db
      in if length tenantUsers > 0 then (Inl TenantHasUsers, db)
         else
           (let tenantQuizzes = dataService_getQuizSetsByTenant tm id' db;
                db1 = fold (\<lambda>quiz d. snd (dataService_deleteQuizSet now (quiz_id quiz) d))
                        tenantQuizzes db;
                tenantResults = dataService_getTestResultsByTenant tm id' db1;
                db2 = fold (\<lambda>result d. snd (databaseService_deleteTestResult now (result_id result) d))
                        tenantResults db1;
                (deleted, db3) = databaseService_deleteTenant now id' db2
            in (Inr deleted, db3)))"

definition dataService_createUser ::
  "string \<Rightarrow> string \<Rightarrow> string \<Rightarrow> string \<Rightarrow> string \<Rightarrow> Role \<Rightarrow> string option \<Rightarrow> DatabaseSchema
     \<Rightarrow> (error + User) \<times> DatabaseSchema" where
  "dataService_createUser now userId name email password role tenantId db =
     (if role = ProductAdmin \<and> truthy tenantId then (Inl ProductAdminInTenant, db)
      else if (role = Admin \<or> role = User) \<and> \<not> truthy tenantId then (Inl TenantRequired, db)
      else databaseService_createUser now userId name email password role tenantId db)"

text \<open>The callback of \<^verbatim>\<open>tenantUsers.forEach\<close> in \<^verbatim>\<open>approveTenant\<close>.\<close>

definition activatePending :: "string \<Rightarrow> User \<Rightarrow> DatabaseSchema \<Rightarrow> DatabaseSchema" where
  "activatePending now user db =
     (if user_status user = Pending
      then snd (databaseService_updateUserStatus now (user_id user) Active db)
      else db)"

definition dataService_approveTenant ::
  "(string \<Rightarrow> int) \<Rightarrow> string \<Rightarrow> string \<Rightarrow> string \<Rightarrow> DatabaseSchema
     \<Rightarrow> (error + bool) \<times> DatabaseSchema" where
  "dataService_approveTenant tm now tenantId approvedBy db =
     (case dataService_getTenant tenantId db of
        Inl thrown \<Rightarrow> (Inl thrown, db)
      | Inr None \<Rightarrow> (Inl TenantNotFound, db)
      | Inr (Some tenant) \<Rightarrow>
          (let (updatedTenant, db1) =
                 dataService_updateTenant now tenantId
                   (noUpdates\<lparr>upd_status := Some TenantApproved,
                              upd_isActive := Some True,
                              upd_approvedBy := Some approvedBy,
                              upd_approvedAt := Some now\<rparr>) db
           in case updatedTenant of
                Inl thrown \<Rightarrow> (Inl thrown, db1)
              | Inr (Some _) \<Rightarrow>
                  (let tenantUsers = dataService_getUsersByTenant tm tenantId db1;
                       db2 = fold (activatePending now) tenantUsers db1
                   in (Inr True, db2))
              | Inr None \<Rightarrow> (Inr False, db1)))"

definition dataService_rejectTenant ::
  "string \<Rightarrow> string \<Rightarrow> string \<Rightarrow> string \<Rightarrow> DatabaseSchema \<Rightarrow> (error + bool) \<times> DatabaseSchema" where
  "dataService_rejectTenant now tenantId rejectedBy reason db =
     (case dataService_getTenant tenantId db of
        Inl thrown \<Rightarrow> (Inl thrown, db)
      | Inr None \<Rightarrow> (Inl TenantNotFound, db)
      | Inr (Some tenant) \<Rightarrow>
          (let (updatedTenant, db1) =
                 dataService_updateTenant now tenantId
                   (noUpdates\<lparr>upd_status := Some TenantRejected,
                              upd_isActive := Some False,
                              upd_approvedBy := Some rejectedBy,
                              upd_approvedAt := Some now,
                              upd_rejectionReason := Some reason\<rparr>) db
           in case updatedTenant of
                Inl thrown \<Rightarrow> (Inl thrown, db1)
              | Inr updated \<Rightarrow> (Inr (updated \<noteq> None), db1)))"

definition dataService_loginUser ::
  "string \<Rightarrow> string \<Rightarrow> string \<Rightarrow> string \<Rightarrow> DatabaseSchema \<Rightarrow> User option \<times> DatabaseSchema" where
  "dataService_loginUser now sessionId email password db =
     (let (user, db1) = databaseService_loginUser now sessionId email password db
      in case user of
           Some u \<Rightarrow> if user_status u = Pending then (None, db1) else (user, db1)
         | None \<Rightarrow> (user, db1))"

definition dataService_getCurrentUser :: "DatabaseSchema \<Rightarrow> User option" where
  "dataService_getCurrentUser db = databaseService_getCurrentUser db"

definition dataService_saveTestResult ::
  "string \<Rightarrow> string \<Rightarrow> NewTestResult \<Rightarrow> DatabaseSchema \<Rightarrow> TestResult \<times> DatabaseSchema" where
  "dataService_saveTestResult now attemptId result db =
     databaseService_saveTestResult now attemptId result db"

definition dataService_getUserBestScoreForQuiz ::
  "string \<Rightarrow> string \<Rightarrow> DatabaseSchema \<Rightarrow> int option" where
  "dataService_getUserBestScoreForQuiz userId quizSetId db =
     databaseService_getUserBestScoreForQuiz userId quizSetId db"

section \<open>Export and import of the whole store\<close>

text \<open>
  \<^verbatim>\<open>exportDatabase\<close> is \<^verbatim>\<open>JSON.stringify(this.db)\<close> and \<^verbatim>\<open>importDatabase\<close> installs
  \<^verbatim>\<open>JSON.parse\<close> of the decoded bytes as the new \<^verbatim>\<open>this.db\<close>. The exported text is
  represented by the JSON value it denotes. \<^verbatim>\<open>JSON.stringify\<close> writes an object
  property by property and leaves out a property whose value is \<^verbatim>\<open>undefined\<close>; reading
  a property that is not there gives \<^verbatim>\<open>undefined\<close>. A column such as
  \<^verbatim>\<open>settings_json\<close>, a string of JSON text in the file, appears as the value of that
  text.
\<close>

datatype json =
  JNull | JBool bool | JNumber int | JString string | JArray "json list"
  | JObject "(string \<times> json) list"

definition stringify_object :: "(string \<times> json option) list \<Rightarrow> json" where
  "stringify_object props = JObject (List.map_filter (\<lambda>(k, v). map_option (Pair k) v) props)"

fun property :: "json \<Rightarrow> string \<Rightarrow> json option" where
  "property (JObject fs) n = map_of fs n"
| "property _ n = None"

text \<open>The truth value of a property read, as \<^verbatim>\<open>!importedDb.metadata\<close> tests it.\<close>

fun js_truthy :: "json option \<Rightarrow> bool" where
  "js_truthy None = False"
| "js_truthy (Some JNull) = False"
| "js_truthy (Some (JBool b)) = b"
| "js_truthy (Some (JNumber n)) = (n \<noteq> 0)"
| "js_truthy (Some (JString s)) = (s \<noteq> [])"
| "js_truthy (Some (JArray xs)) = True"
| "js_truthy (Some (JObject fs)) = True"

subsection \<open>Reading a property at the type its interface declares\<close>

fun as_string :: "json option \<Rightarrow> string option" where
  "as_string (Some (JString s)) = Some s"
| "as_string _ = None"

fun as_optional_string :: "json option \<Rightarrow> string option option" where
  "as_optional_string None = Some None"
| "as_optional_string (Some (JString s)) = Some (Some s)"
| "as_optional_string _ = None"

fun as_boolean :: "json option \<Rightarrow> bool option" where
  "as_boolean (Some (JBool b)) = Some b"
| "as_boolean _ = None"

fun as_number :: "json option \<Rightarrow> int option" where
  "as_number (Some (JNumber n)) = Some n"
| "as_number _ = None"

fun strings_of :: "json list \<Rightarrow> string list option" where
  "strings_of [] = Some []"
| "strings_of (JString s # js) = map_option ((#) s) (strings_of js)"
| "strings_of (_ # js) = None"

fun as_string_array :: "json option \<Rightarrow> string list option" where
  "as_string_array (Some (JArray js)) = strings_of js"
| "as_string_array _ = None"

definition json_of_TenantStatus :: "TenantStatus \<Rightarrow> json" where
  "json_of_TenantStatus s =
     JString (case s of TenantPending \<Rightarrow> ''pending'' | TenantApproved \<Rightarrow> ''approved''
              | TenantRejected \<Rightarrow> ''rejected'')"

definition as_TenantStatus :: "json option \<Rightarrow> TenantStatus option" where
  "as_TenantStatus j =
     (case as_string j of
        None \<Rightarrow> None
      | Some s \<Rightarrow>
          if s = ''pending'' then Some TenantPending
          else if s = ''approved'' then Some TenantApproved
          else if s = ''rejected'' then Some TenantRejected
          else None)"

definition json_of_Role :: "Role \<Rightarrow> json" where
  "json_of_Role r =
     JString (case r of ProductAdmin \<Rightarrow> ''product-admin'' | Admin \<Rightarrow> ''admin'' | User \<Rightarrow> ''user'')"

definition as_Role :: "json option \<Rightarrow> Role option" where
  "as_Role j =
     (case as_string j of
        None \<Rightarrow> None
      | Some s \<Rightarrow>
          if s = ''product-admin'' then Some ProductAdmin
          else if s = ''admin'' then Some Admin
          else if s = ''user'' then Some User
          else None)"

definition json_of_UserStatus :: "UserStatus \<Rightarrow> json" where
  "json_of_UserStatus s =
     JString (case s of Active \<Rightarrow> ''active'' | Pending \<Rightarrow> ''pending'' | Suspended \<Rightarrow> ''suspended'')"

definition as_UserStatus :: "json option \<Rightarrow> UserStatus option" where
  "as_UserStatus j =
     (case as_string j of
        None \<Rightarrow> None
      | Some s \<Rightarrow>
          if s = ''active'' then Some Active
          else if s = ''pending'' then Some Pending
          else if s = ''suspended'' then Some Suspended
          else None)"

definition json_of_ChoiceType :: "ChoiceType \<Rightarrow> json" where
  "json_of_ChoiceType c =
     JString (case c of Radio \<Rightarrow> ''radio'' | MultipleChoice \<Rightarrow> ''multiplechoice'')"

definition as_ChoiceType :: "json option \<Rightarrow> ChoiceType option" where
  "as_ChoiceType j =
     (case as_string j of
        None \<Rightarrow> None
      | Some s \<Rightarrow>
          if s = ''radio'' then Some Radio
          else if s = ''multiplechoice'' then Some MultipleChoice
          else None)"

definition json_of_CorrectAnswer :: "CorrectAnswer \<Rightarrow> json" where
  "json_of_CorrectAnswer a =
     (case a of Single s \<Rightarrow> JString s | Multiple xs \<Rightarrow> JArray (map JString xs))"

fun as_CorrectAnswer :: "json option \<Rightarrow> CorrectAnswer option" where
  "as_CorrectAnswer (Some (JString s)) = Some (Single s)"
| "as_CorrectAnswer (Some (JArray js)) = map_option Multiple (strings_of js)"
| "as_CorrectAnswer _ = None"

definition json_of_TenantSettings :: "TenantSettings \<Rightarrow> json" where
  "json_of_TenantSettings s =
     stringify_object
       [(''allowUserRegistration'', Some (JBool (allowUserRegistration s))),
        (''maxAdmins'', Some (JNumber (maxAdmins s))),
        (''maxUsers'', Some (JNumber (maxUsers s))),
        (''maxQuizzes'', Some (JNumber (maxQuizzes s)))]"

definition as_TenantSettings :: "json option \<Rightarrow> TenantSettings option" where
  "as_TenantSettings j =
     (case j of
        None \<Rightarrow> None
      | Some o' \<Rightarrow>
          do {
            a \<leftarrow> as_boolean (property o' ''allowUserRegistration'');
            b \<leftarrow> as_number (property o' ''maxAdmins'');
            c \<leftarrow> as_number (property o' ''maxUsers'');
            d \<leftarrow> as_number (property o' ''maxQuizzes'');
            Some \<lparr>allowUserRegistration = a, maxAdmins = b, maxUsers = c, maxQuizzes = d\<rparr>
          })"

subsection \<open>The rows\<close>

definition json_of_TenantRecord :: "TenantRecord \<Rightarrow> json" where
  "json_of_TenantRecord r =
     stringify_object
       [(''id'', Some (JString (tn_id r))),
        (''name'', Some (JString (tn_name r))),
        (''description'', Some (JString (tn_description r))),
        (''domain'', map_option JString (tn_domain r)),
        (''status'', Some (json_of_TenantStatus (tn_status r))),
        (''is_active'', Some (JBool (tn_is_active r))),
        (''created_by'', Some (JString (tn_created_by r))),
        (''created_at'', Some (JString (tn_created_at r))),
        (''updated_at'', Some (JString (tn_updated_at r))),
        (''approved_by'', map_option JString (tn_approved_by r)),
        (''approved_at'', map_option JString (tn_approved_at r)),
        (''rejection_reason'', map_option JString (tn_rejection_reason r)),
        (''settings_json'', Some (json_of_TenantSettings (tn_settings_json r)))]"

definition TenantRecord_of_json :: "json \<Rightarrow> TenantRecord option" where
  "TenantRecord_of_json j =
     do {
       a \<leftarrow> as_string (property j ''id'');
       b \<leftarrow> as_string (property j ''name'');
       c \<leftarrow> as_string (property j ''description'');
       d \<leftarrow> as_optional_string (property j ''domain'');
       e \<leftarrow> as_TenantStatus (property j ''status'');
       f \<leftarrow> as_boolean (property j ''is_active'');
       g \<leftarrow> as_string (property j ''created_by'');
       h \<leftarrow> as_string (property j ''created_at'');
       i \<leftarrow> as_string (property j ''updated_at'');
       k \<leftarrow> as_optional_string (property j ''approved_by'');
       l \<leftarrow> as_optional_string (property j ''approved_at'');
       m \<leftarrow> as_optional_string (property j ''rejection_reason'');
       n \<leftarrow> as_TenantSettings (property j ''settings_json'');
       Some \<lparr>tn_id = a, tn_name = b, tn_description = c, tn_domain = d, tn_status = e,
             tn_is_active = f, tn_created_by = g, tn_created_at = h, tn_updated_at = i,
             tn_approved_by = k, tn_approved_at = l, tn_rejection_reason = m,
             tn_settings_json = n\<rparr>
     }"

definition json_of_UserRecord :: "UserRecord \<Rightarrow> json" where
  "json_of_UserRecord r =
     stringify_object
       [(''id'', Some (JString (ur_id r))),
        (''name'', Some (JString (ur_name r))),
        (''email'', Some (JString (ur_email r))),
        (''password_hash'', Some (JString (ur_password_hash r))),
        (''role'', Some (json_of_Role (ur_role r))),
        (''tenant_id'', map_option JString (ur_tenant_id r)),
        (''status'', Some (json_of_UserStatus (ur_status r))),
        (''created_at'', Some (JString (ur_created_at r)))]"

definition UserRecord_of_json :: "json \<Rightarrow> UserRecord option" where
  "UserRecord_of_json j =
     do {
       a \<leftarrow> as_string (property j ''id'');
       b \<leftarrow> as_string (property j ''name'');
       c \<leftarrow> as_string (property j ''email'');
       d \<leftarrow> as_string (property j ''password_hash'');
       e \<leftarrow> as_Role (property j ''role'');
       f \<leftarrow> as_optional_string (property j ''tenant_id'');
       g \<leftarrow> as_UserStatus (property j ''status'');
       h \<leftarrow> as_string (property j ''created_at'');
       Some \<lparr>ur_id = a, ur_name = b, ur_email = c, ur_password_hash = d, ur_role = e,
             ur_tenant_id = f, ur_status = g, ur_created_at = h\<rparr>
     }"

definition json_of_QuizSetRecord :: "QuizSetRecord \<Rightarrow> json" where
  "json_of_QuizSetRecord r =
     stringify_object
       [(''id'', Some (JString (qs_id r))),
        (''name'', Some (JString (qs_name r))),
        (''description'', Some (JString (qs_description r))),
        (''is_published'', Some (JBool (qs_is_published r))),
        (''tenant_id'', map_option JString (qs_tenant_id r)),
        (''created_by'', Some (JString (qs_created_by r))),
        (''created_at'', Some (JString (qs_created_at r))),
        (''updated_at'', Some (JString (qs_updated_at r)))]"

definition QuizSetRecord_of_json :: "json \<Rightarrow> QuizSetRecord option" where
  "QuizSetRecord_of_json j =
     do {
       a \<leftarrow> as_string (property j ''id'');
       b \<leftarrow> as_string (property j ''name'');
       c \<leftarrow> as_string (property j ''description'');
       d \<leftarrow> as_boolean (property j ''is_published'');
       e \<leftarrow> as_optional_string (property j ''tenant_id'');
       f \<leftarrow> as_string (property j ''created_by'');
       g \<leftarrow> as_string (property j ''created_at'');
       h \<leftarrow> as_string (property j ''updated_at'');
       Some \<lparr>qs_id = a, qs_name = b, qs_description = c, qs_is_published = d,
             qs_tenant_id = e, qs_created_by = f, qs_created_at = g, qs_updated_at = h\<rparr>
     }"

definition json_of_QuizQuestionRecord :: "QuizQuestionRecord \<Rightarrow> json" where
  "json_of_QuizQuestionRecord r =
     stringify_object
       [(''id'', Some (JString (qq_id r))),
        (''quiz_set_id'', Some (JString (qq_quiz_set_id r))),
        (''image_url'', Some (JString (qq_image_url r))),
        (''image_desc'', Some (JString (qq_image_desc r))),
        (''question'', Some (JString (qq_question r))),
        (''choice_type'', Some (json_of_ChoiceType (qq_choice_type r))),
        (''options_json'', Some (JArray (map JString (qq_options_json r)))),
        (''correct_answer_json'', Some (json_of_CorrectAnswer (qq_correct_answer_json r))),
        (''order_index'', Some (JNumber (qq_order_index r)))]"

definition QuizQuestionRecord_of_json :: "json \<Rightarrow> QuizQuestionRecord option" where
  "QuizQuestionRecord_of_json j =
     do {
       a \<leftarrow> as_string (property j ''id'');
       b \<leftarrow> as_string (property j ''quiz_set_id'');
       c \<leftarrow> as_string (property j ''image_url'');
       d \<leftarrow> as_string (property j ''image_desc'');
       e \<leftarrow> as_string (property j ''question'');
       f \<leftarrow> as_ChoiceType (property j ''choice_type'');
       g \<leftarrow> as_string_array (property j ''options_json'');
       h \<leftarrow> as_CorrectAnswer (property j ''correct_answer_json'');
       i \<leftarrow> as_number (property j ''order_index'');
       Some \<lparr>qq_id = a, qq_quiz_set_id = b, qq_image_url = c, qq_image_desc = d,
             qq_question = e, qq_choice_type = f, qq_options_json = g,
             qq_correct_answer_json = h, qq_order_index = i\<rparr>
     }"

definition json_of_UserAttemptRecord :: "UserAttemptRecord \<Rightarrow> json" where
  "json_of_UserAttemptRecord r =
     stringify_object
       [(''id'', Some (JString (ua_id r))),
        (''user_id'', Some (JString (ua_user_id r))),
        (''tenant_id'', map_option JString (ua_tenant_id r)),
        (''quiz_set_id'', Some (JString (ua_quiz_set_id r))),
        (''score'', Some (JNumber (ua_score r))),
        (''total_questions'', Some (JNumber (ua_total_questions r))),
        (''percentage'', Some (JNumber (ua_percentage r))),
        (''time_remaining'', Some (JNumber (ua_time_remaining r))),
        (''time_taken'', Some (JNumber (ua_time_taken r))),
        (''completed_at'', Some (JString (ua_completed_at r))),
        (''quiz_type'', Some (JString (ua_quiz_type r)))]"

definition UserAttemptRecord_of_json :: "json \<Rightarrow> UserAttemptRecord option" where
  "UserAttemptRecord_of_json j =
     do {
       a \<leftarrow> as_string (property j ''id'');
       b \<leftarrow> as_string (property j ''user_id'');
       c \<leftarrow> as_optional_string (property j ''tenant_id'');
       d \<leftarrow> as_string (property j ''quiz_set_id'');
       e \<leftarrow> as_number (property j ''score'');
       f \<leftarrow> as_number (property j ''total_questions'');
       g \<leftarrow> as_number (property j ''percentage'');
       h \<leftarrow> as_number (property j ''time_remaining'');
       i \<leftarrow> as_number (property j ''time_taken'');
       k \<leftarrow> as_string (property j ''completed_at'');
       l \<leftarrow> as_string (property j ''quiz_type'');
       Some \<lparr>ua_id = a, ua_user_id = b, ua_tenant_id = c, ua_quiz_set_id = d, ua_score = e,
             ua_total_questions = f, ua_percentage = g, ua_time_remaining = h,
             ua_time_taken = i, ua_completed_at = k, ua_quiz_type = l\<rparr>
     }"

definition json_of_AttemptAnswerRecord :: "AttemptAnswerRecord \<Rightarrow> json" where
  "json_of_AttemptAnswerRecord r =
     stringify_object
       [(''id'', Some (JString (aa_id r))),
        (''attempt_id'', Some (JString (aa_attempt_id r))),
        (''question_id'', Some (JString (aa_question_id r))),
        (''user_answer_json'', Some (JArray (map JString (aa_user_answer_json r)))),
        (''is_correct'', Some (JBool (aa_is_correct r)))]"

definition AttemptAnswerRecord_of_json :: "json \<Rightarrow> AttemptAnswerRecord option" where
  "AttemptAnswerRecord_of_json j =
     do {
       a \<leftarrow> as_string (property j ''id'');
       b \<leftarrow> as_string (property j ''attempt_id'');
       c \<leftarrow> as_string (property j ''question_id'');
       d \<leftarrow> as_string_array (property j ''user_answer_json'');
       e \<leftarrow> as_boolean (property j ''is_correct'');
       Some \<lparr>aa_id = a, aa_attempt_id = b, aa_question_id = c, aa_user_answer_json = d,
             aa_is_correct = e\<rparr>
     }"

definition json_of_UserSessionRecord :: "UserSessionRecord \<Rightarrow> json" where
  "json_of_UserSessionRecord r =
     stringify_object
       [(''id'', Some (JString (us_id r))),
        (''user_id'', Some (JString (us_user_id r)))]"

definition UserSessionRecord_of_json :: "json \<Rightarrow> UserSessionRecord option" where
  "UserSessionRecord_of_json j =
     do {
       a \<leftarrow> as_string (property j ''id'');
       b \<leftarrow> as_string (property j ''user_id'');
       Some \<lparr>us_id = a, us_user_id = b\<rparr>
     }"

definition json_of_MetadataRecord :: "MetadataRecord \<Rightarrow> json" where
  "json_of_MetadataRecord r =
     stringify_object
       [(''version'', Some (JString (md_version r))),
        (''last_updated'', Some (JString (md_last_updated r)))]"

definition MetadataRecord_of_json :: "json \<Rightarrow> MetadataRecord option" where
  "MetadataRecord_of_json j =
     do {
       a \<leftarrow> as_string (property j ''version'');
       b \<leftarrow> as_string (property j ''last_updated'');
       Some \<lparr>md_version = a, md_last_updated = b\<rparr>
     }"

subsection \<open>Tables and the store\<close>

definition json_of_table :: "('a \<Rightarrow> json) \<Rightarrow> 'a DatabaseTable \<Rightarrow> json" where
  "json_of_table enc t = JObject (map (\<lambda>(k, r). (k, enc r)) t)"

fun rows_of_json :: "(json \<Rightarrow> 'a option) \<Rightarrow> (string \<times> json) list \<Rightarrow> 'a DatabaseTable option" where
  "rows_of_json dec [] = Some []"
| "rows_of_json dec ((k, j) # fs) =
     (case dec j of
        None \<Rightarrow> None
      | Some r \<Rightarrow> map_option ((#) (k, r)) (rows_of_json dec fs))"

fun table_of_json :: "(json \<Rightarrow> 'a option) \<Rightarrow> json option \<Rightarrow> 'a DatabaseTable option" where
  "table_of_json dec (Some (JObject fs)) = rows_of_json dec fs"
| "table_of_json dec _ = None"

definition json_of_DatabaseSchema :: "DatabaseSchema \<Rightarrow> json" where
  "json_of_DatabaseSchema db =
     stringify_object
       [(''tenants'', Some (json_of_table json_of_TenantRecord (tenants db))),
        (''users'', Some (json_of_table json_of_UserRecord (users db))),
        (''quiz_sets'', Some (json_of_table json_of_QuizSetRecord (quiz_sets db))),
        (''quiz_questions'', Some (json_of_table json_of_QuizQuestionRecord (quiz_questions db))),
        (''user_attempts'', Some (json_of_table json_of_UserAttemptRecord (user_attempts db))),
        (''attempt_answers'', Some (json_of_table json_of_AttemptAnswerRecord (attempt_answers db))),
        (''user_sessions'', Some (json_of_table json_of_UserSessionRecord (user_sessions db))),
        (''metadata'', Some (json_of_table json_of_MetadataRecord (metadata db)))]"

text \<open>
  The typed reading of an installed object. \<open>None\<close>: the object does not have the
  shape of \<^verbatim>\<open>DatabaseSchema\<close>, and the store the source then runs on has no counterpart
  here.
\<close>

definition DatabaseSchema_of_json :: "json \<Rightarrow> DatabaseSchema option" where
  "DatabaseSchema_of_json j =
     do {
       a \<leftarrow> table_of_json TenantRecord_of_json (property j ''tenants'');
       b \<leftarrow> table_of_json UserRecord_of_json (property j ''users'');
       c \<leftarrow> table_of_json QuizSetRecord_of_json (property j ''quiz_sets'');
       d \<leftarrow> table_of_json QuizQuestionRecord_of_json (property j ''quiz_questions'');
       e \<leftarrow> table_of_json UserAttemptRecord_of_json (property j ''user_attempts'');
       f \<leftarrow> table_of_json AttemptAnswerRecord_of_json (property j ''attempt_answers'');
       g \<leftarrow> table_of_json UserSessionRecord_of_json (property j ''user_sessions'');
       h \<leftarrow> table_of_json MetadataRecord_of_json (property j ''metadata'');
       Some \<lparr>tenants = a, users = b, quiz_sets = c, quiz_questions = d, user_attempts = e,
             attempt_answers = f, user_sessions = g, metadata = h\<rparr>
     }"

definition exportDatabase :: "DatabaseSchema \<Rightarrow> json" where
  "exportDatabase db = json_of_DatabaseSchema db"

text \<open>
  \<^verbatim>\<open>importDatabase(data)\<close>. The argument is the value that the bytes parse to, \<open>None\<close>
  when \<^verbatim>\<open>TextDecoder.decode\<close> or \<^verbatim>\<open>JSON.parse\<close> throws; the \<^verbatim>\<open>catch\<close> then returns
  false, as it does when one of the three keys is missing or falsy.
\<close>

definition importDatabase ::
  "string \<Rightarrow> json option \<Rightarrow> DatabaseSchema \<Rightarrow> (bool \<times> DatabaseSchema) option" where
  "importDatabase now data db =
     (case data of
        None \<Rightarrow> Some (False, db)
      | Some importedDb \<Rightarrow>
          if \<not> js_truthy (property importedDb ''metadata'') \<or> \<not> js_truthy (property importedDb ''users'')
             \<or> \<not> js_truthy (property importedDb ''tenants'')
          then Some (False, db)
          else map_option (\<lambda>db'. (True, saveDatabase now db')) (DatabaseSchema_of_json importedDb))"

section \<open>Tables keyed by the id of their rows\<close>

text \<open>
  Every operation that inserts a row stores it under the row's own \<^verbatim>\<open>id\<close>:
  \<^verbatim>\<open>this.db.users[userId] = { id: userId, ... }\<close>, and likewise for the other tables.
  \<open>keyed_by ident t\<close> states this for a table, together with the distinctness of its
  keys.
\<close>

definition keyed_by :: "('a \<Rightarrow> string) \<Rightarrow> 'a DatabaseTable \<Rightarrow> bool" where
  "keyed_by ident t = (distinct (map fst t) \<and> (\<forall>(k, r) \<in> set t. ident r = k))"

text \<open>
  The rows that the adapter's optional-tenant queries (\<^verbatim>\<open>getQuizSets(tenantId?)\<close>,
  \<^verbatim>\<open>getTestResults(tenantId?)\<close>) select for a tenant id given as a string: the rows
  of that tenant, and every row when the string is empty.
\<close>

definition in_scope :: "string \<Rightarrow> string option \<Rightarrow> bool" where
  "in_scope tenantId x = (tenantId = [] \<or> x = Some tenantId)"

section \<open>Example states\<close>


definition attempt ::
  "string \<Rightarrow> string \<Rightarrow> string option \<Rightarrow> string \<Rightarrow> int \<Rightarrow> int \<Rightarrow> UserAttemptRecord" where
  "attempt aid uid tid qid score pct =
     \<lparr>ua_id = aid, ua_user_id = uid, ua_tenant_id = tid, ua_quiz_set_id = qid,
      ua_score = score, ua_total_questions = 5, ua_percentage = pct,
      ua_time_remaining = 30, ua_time_taken = 420, ua_completed_at = ''2024-03-01'',
      ua_quiz_type = ''custom''\<rparr>"

definition attempts_db :: DatabaseSchema where
  "attempts_db =
     \<lparr>tenants = [], users = [], quiz_sets = [], quiz_questions = [],
      user_attempts =
        [(''a1'', attempt ''a1'' ''u1'' (Some ''t1'') ''q1'' 3 60),
         (''a2'', attempt ''a2'' ''u1'' (Some ''t1'') ''q1'' 4 80),
         (''a3'', attempt ''a3'' ''u2'' (Some ''t1'') ''q1'' 5 100),
         (''a4'', attempt ''a4'' ''u1'' (Some ''t1'') ''q2'' 5 100)],
      attempt_answers = [], user_sessions = [], metadata = []\<rparr>"

definition tm0 :: "string \<Rightarrow> int" where
  "tm0 s = int (length s)"

definition org_db :: DatabaseSchema where
  "org_db =
     \<lparr>tenants =
        [(''t1'', \<lparr>tn_id = ''t1'', tn_name = ''Acme'', tn_description = ''Tenant for Ann'',
                   tn_domain = None, tn_status = TenantPending, tn_is_active = False,
                   tn_created_by = ''system'', tn_created_at = ''2024-01-01'',
                   tn_updated_at = ''2024-01-01'', tn_approved_by = None,
                   tn_approved_at = None, tn_rejection_reason = None,
                   tn_settings_json = \<lparr>allowUserRegistration = True, maxAdmins = 5,
                                       maxUsers = 100, maxQuizzes = 50\<rparr>\<rparr>),
         (''t2'', \<lparr>tn_id = ''t2'', tn_name = ''Bolt'', tn_description = ''Tenant for Bob'',
                   tn_domain = None, tn_status = TenantRejected, tn_is_active = False,
                   tn_created_by = ''system'', tn_created_at = ''2024-01-02'',
                   tn_updated_at = ''2024-01-03'', tn_approved_by = Some ''root'',
                   tn_approved_at = Some ''2024-01-03'', tn_rejection_reason = Some ''spam'',
                   tn_settings_json = \<lparr>allowUserRegistration = True, maxAdmins = 5,
                                       maxUsers = 100, maxQuizzes = 50\<rparr>\<rparr>),
         (''t3'', \<lparr>tn_id = ''t3'', tn_name = ''Core'', tn_description = ''Demo'',
                   tn_domain = None, tn_status = TenantApproved, tn_is_active = True,
                   tn_created_by = ''root'', tn_created_at = ''2024-01-04'',
                   tn_updated_at = ''2024-01-04'', tn_approved_by = None,
                   tn_approved_at = None, tn_rejection_reason = None,
                   tn_settings_json = \<lparr>allowUserRegistration = True, maxAdmins = 5,
                                       maxUsers = 100, maxQuizzes = 50\<rparr>\<rparr>)],
      users =
        [(''root'', \<lparr>ur_id = ''root'', ur_name = ''Root'', ur_email = ''root@quiz.demo'',
                     ur_password_hash = hashPassword ''wel123'', ur_role = ProductAdmin,
                     ur_tenant_id = None, ur_status = Active, ur_created_at = ''2024-01-01''\<rparr>),
         (''u1'', \<lparr>ur_id = ''u1'', ur_name = ''Ann'', ur_email = ''ann@acme.io'',
                   ur_password_hash = hashPassword ''pw1'', ur_role = Admin,
                   ur_tenant_id = Some ''t1'', ur_status = Pending, ur_created_at = ''2024-01-01''\<rparr>),
         (''u2'', \<lparr>ur_id = ''u2'', ur_name = ''Al'', ur_email = ''al@acme.io'',
                   ur_password_hash = hashPassword ''pw2'', ur_role = User,
                   ur_tenant_id = Some ''t1'', ur_status = Suspended, ur_created_at = ''2024-01-05''\<rparr>),
         (''u3'', \<lparr>ur_id = ''u3'', ur_name = ''Bob'', ur_email = ''bob@bolt.io'',
                   ur_password_hash = hashPassword ''pw3'', ur_role = Admin,
                   ur_tenant_id = Some ''t2'', ur_status = Pending, ur_created_at = ''2024-01-02''\<rparr>)],
      quiz_sets =
        [(''q1'', \<lparr>qs_id = ''q1'', qs_name = ''Basics'', qs_description = ''first'',
                   qs_is_published = True, qs_tenant_id = Some ''t3'', qs_created_by = ''root'',
                   qs_created_at = ''2024-01-04'', qs_updated_at = ''2024-01-04''\<rparr>),
         (''q2'', \<lparr>qs_id = ''q2'', qs_name = ''Acme quiz'', qs_description = ''second'',
                   qs_is_published = False, qs_tenant_id = Some ''t1'', qs_created_by = ''u1'',
                   qs_created_at = ''2024-01-05'', qs_updated_at = ''2024-01-06''\<rparr>)],
      quiz_questions =
        [(''k1'', \<lparr>qq_id = ''k1'', qq_quiz_set_id = ''q1'', qq_image_url = '''',
                   qq_image_desc = '''', qq_question = ''one'', qq_choice_type = Radio,
                   qq_options_json = [''a'', ''b''], qq_correct_answer_json = Single ''a'',
                   qq_order_index = 0\<rparr>),
         (''k2'', \<lparr>qq_id = ''k2'', qq_quiz_set_id = ''q2'', qq_image_url = '''',
                   qq_image_desc = '''', qq_question = ''two'', qq_choice_type = MultipleChoice,
                   qq_options_json = [''a'', ''b''], qq_correct_answer_json = Multiple [''a'', ''b''],
                   qq_order_index = 0\<rparr>)],
      user_attempts =
        [(''a1'', attempt ''a1'' ''u9'' (Some ''t3'') ''q1'' 4 80),
         (''a2'', attempt ''a2'' ''u2'' (Some ''t1'') ''q2'' 3 60)],
      attempt_answers = [],
      user_sessions = [(''s0'', \<lparr>us_id = ''s0'', us_user_id = ''root''\<rparr>)],
      metadata = [(''main'', \<lparr>md_version = ''2.2.0'', md_last_updated = ''2024-01-06''\<rparr>)]\<rparr>"

definition empty_db :: DatabaseSchema where
  "empty_db =
     \<lparr>tenants = [], users = [], quiz_sets = [], quiz_questions = [], user_attempts = [],
      attempt_answers = [], user_sessions = [], metadata = []\<rparr>"

definition quiz_result :: "string \<Rightarrow> string option \<Rightarrow> NewTestResult" where
  "quiz_result quizType quizSetId =
     \<lparr>new_userId = ''u2'', new_tenantId = Some ''t1'', new_userName = ''Al'',
      new_userEmail = ''al@acme.io'', new_score = 4, new_totalQuestions = 4,
      new_percentage = 100, new_timeRemaining = 12, new_timeTaken = 438,
      new_completedAt = ''2024-06-01'', new_quizType = quizType, new_questionsUsed = [],
      new_answers = [], new_quizSetId = quizSetId\<rparr>"

section \<open>Properties of the store and the adapter\<close>

subsection \<open>What \<^verbatim>\<open>saveDatabase\<close> leaves alone\<close>

lemma saveDatabase_fields [simp]:
  "tenants (saveDatabase now db) = tenants db"
  "users (saveDatabase now db) = users db"
  "quiz_sets (saveDatabase now db) = quiz_sets db"
  "quiz_questions (saveDatabase now db) = quiz_questions db"
  "user_attempts (saveDatabase now db) = user_attempts db"
  "attempt_answers (saveDatabase now db) = attempt_answers db"
  "user_sessions (saveDatabase now db) = user_sessions db"
  by (simp_all add: saveDatabase_def)

subsection \<open>Reading a table\<close>

lemma table_get_Own: "map_of t k = Some r \<Longrightarrow> table_get t k = Own r"
  by (simp add: table_get_def)

lemma table_get_Own_iff: "table_get t k = Own r \<longleftrightarrow> map_of t k = Some r"
  by (auto simp: table_get_def split: option.splits)

lemma table_get_Absent_iff:
  "table_get t k = Absent \<longleftrightarrow> map_of t k = None \<and> k \<notin> set objectPrototypeNames"
  by (auto simp: table_get_def split: option.splits)


lemma delete_no_row: "map_of t k = None \<Longrightarrow> AList.delete k t = t"
  by (simp add: map_of_eq_None_iff)

subsection \<open>Deleting a quiz set\<close>

text \<open>
  On a table with distinct keys, one step of the loop over the question keys removes
  the visited row when it belongs to the quiz set, and the whole loop is a filter.
\<close>

lemma deleteQuestionOf_filter:
  "distinct (map fst t) \<Longrightarrow>
   deleteQuestionOf i k t = filter (\<lambda>(k', q). \<not> (k' = k \<and> qq_quiz_set_id q = i)) t"
proof (cases "map_of t k")
  case None
  assume d: "distinct (map fst t)"
  from None have "k \<notin> fst ` set t" by (simp add: map_of_eq_None_iff)
  then have "filter (\<lambda>(k', q). \<not> (k' = k \<and> qq_quiz_set_id q = i)) t = t"
    by (force simp: filter_id_conv)
  with None show ?thesis by (simp add: deleteQuestionOf_def)
next
  case (Some q)
  assume d: "distinct (map fst t)"
  have mem: "\<And>q'. (k, q') \<in> set t \<longleftrightarrow> q' = q"
    using Some d by (metis map_of_eq_Some_iff option.inject)
  show ?thesis
  proof (cases "qq_quiz_set_id q = i")
    case True
    have "AList.delete k t = filter (\<lambda>(k', q). \<not> (k' = k \<and> qq_quiz_set_id q = i)) t"
      unfolding AList.delete_eq using mem True
      by (intro filter_cong) auto
    with Some True show ?thesis by (simp add: deleteQuestionOf_def)
  next
    case False
    have "filter (\<lambda>(k', q). \<not> (k' = k \<and> qq_quiz_set_id q = i)) t = t"
      using mem False by (auto simp: filter_id_conv)
    with Some False show ?thesis by (simp add: deleteQuestionOf_def)
  qed
qed

lemma fold_deleteQuestionOf:
  "distinct (map fst t) \<Longrightarrow>
   fold (deleteQuestionOf i) ks t =
     filter (\<lambda>(k, q). \<not> (k \<in> set ks \<and> qq_quiz_set_id q = i)) t"
proof (induction ks arbitrary: t)
  case Nil
  then show ?case by simp
next
  case (Cons k ks)
  let ?t1 = "filter (\<lambda>(k', q). \<not> (k' = k \<and> qq_quiz_set_id q = i)) t"
  have d1: "distinct (map fst ?t1)" using Cons.prems by (simp add: distinct_map_filter)
  have "fold (deleteQuestionOf i) (k # ks) t = fold (deleteQuestionOf i) ks ?t1"
    using Cons.prems by (simp add: deleteQuestionOf_filter)
  also have "\<dots> = filter (\<lambda>(k, q). \<not> (k \<in> set ks \<and> qq_quiz_set_id q = i)) ?t1"
    using Cons.IH [OF d1] .
  also have "\<dots> = filter (\<lambda>(k', q). \<not> (k' \<in> set (k # ks) \<and> qq_quiz_set_id q = i)) t"
    by (auto intro: filter_cong)
  finally show ?case .
qed

lemma fold_deleteQuestionOf_keys:
  assumes "distinct (map fst t)"
  shows "fold (deleteQuestionOf i) (map fst t) t = filter (\<lambda>(k, q). qq_quiz_set_id q \<noteq> i) t"
proof -
  have "fold (deleteQuestionOf i) (map fst t) t =
        filter (\<lambda>(k, q). \<not> (k \<in> set (map fst t) \<and> qq_quiz_set_id q = i)) t"
    using assms by (rule fold_deleteQuestionOf)
  also have "\<dots> = filter (\<lambda>(k, q). qq_quiz_set_id q \<noteq> i) t"
    by (intro filter_cong) force+
  finally show ?thesis .
qed

lemma deleteQuizSet_present:
  assumes "distinct (map fst (quiz_questions db))" and "table_get (quiz_sets db) i \<noteq> Absent"
  shows "databaseService_deleteQuizSet now i db =
           (True, saveDatabase now
              (db\<lparr>quiz_questions := filter (\<lambda>(k, q). qq_quiz_set_id q \<noteq> i) (quiz_questions db),
                  quiz_sets := AList.delete i (quiz_sets db)\<rparr>))"
  using assms
  by (simp add: databaseService_deleteQuizSet_def fold_deleteQuestionOf_keys split: lookup.split)

lemma deleteQuizSet_absent:
  "table_get (quiz_sets db) i = Absent \<Longrightarrow> databaseService_deleteQuizSet now i db = (False, db)"
  by (simp add: databaseService_deleteQuizSet_def)




subsection \<open>Best score\<close>

lemma Math_max_Max: "xs \<noteq> [] \<Longrightarrow> Math_max xs = Some (Max (set xs))"
  by (cases xs) (simp_all add: Max.set_eq_fold [symmetric])

text \<open>
  C7. \<^verbatim>\<open>getUserBestScoreForQuiz(u, q)\<close> is the greatest \<open>percentage\<close> among the stored
  attempts with \<open>user_id = u\<close> and \<open>quiz_set_id = q\<close>, and it is null exactly when
  there is no such attempt.
\<close>

theorem getUserBestScoreForQuiz_max:
  "dataService_getUserBestScoreForQuiz u q db =
     (if \<exists>a \<in> snd ` set (user_attempts db). ua_user_id a = u \<and> ua_quiz_set_id a = q
      then Some (Max {ua_percentage a | a.
                        a \<in> snd ` set (user_attempts db) \<and> ua_user_id a = u \<and> ua_quiz_set_id a = q})
      else None)"
proof -
  let ?xs = "filter (\<lambda>a. ua_user_id a = u \<and> ua_quiz_set_id a = q) (map snd (user_attempts db))"
  have s: "set (map ua_percentage ?xs) =
        {ua_percentage a | a. a \<in> snd ` set (user_attempts db) \<and> ua_user_id a = u \<and> ua_quiz_set_id a = q}"
    by auto
  have e: "?xs \<noteq> [] \<longleftrightarrow> (\<exists>a \<in> snd ` set (user_attempts db). ua_user_id a = u \<and> ua_quiz_set_id a = q)"
    by (auto simp: filter_empty_conv)
  show ?thesis
  proof (cases "?xs = []")
    case True
    with e show ?thesis
      by (simp add: dataService_getUserBestScoreForQuiz_def
          databaseService_getUserBestScoreForQuiz_def)
  next
    case False
    then have "Math_max (map ua_percentage ?xs) = Some (Max (set (map ua_percentage ?xs)))"
      by (intro Math_max_Max) simp
    with False e s show ?thesis
      by (simp add: dataService_getUserBestScoreForQuiz_def
          databaseService_getUserBestScoreForQuiz_def del: set_map set_filter)
  qed
qed

theorem getUserBestScoreForQuiz_max_witness:
  "dataService_getUserBestScoreForQuiz ''u1'' ''q1'' attempts_db = Some 80 \<and>
   Max {ua_percentage a | a. a \<in> snd ` set (user_attempts attempts_db) \<and>
                             ua_user_id a = ''u1'' \<and> ua_quiz_set_id a = ''q1''} = 80 \<and>
   dataService_getUserBestScoreForQuiz ''u3'' ''q1'' attempts_db = None"
proof -
  have v: "dataService_getUserBestScoreForQuiz ''u1'' ''q1'' attempts_db = Some 80"
    by (simp add: dataService_getUserBestScoreForQuiz_def
        databaseService_getUserBestScoreForQuiz_def attempts_db_def attempt_def)
  have e: "\<exists>a \<in> snd ` set (user_attempts attempts_db). ua_user_id a = ''u1'' \<and> ua_quiz_set_id a = ''q1''"
    by (simp add: attempts_db_def attempt_def)
  have n: "\<not> (\<exists>a \<in> snd ` set (user_attempts attempts_db). ua_user_id a = ''u3'' \<and> ua_quiz_set_id a = ''q1'')"
    by (simp add: attempts_db_def attempt_def)
  from getUserBestScoreForQuiz_max [of "''u1''" "''q1''" attempts_db]
       getUserBestScoreForQuiz_max [of "''u3''" "''q1''" attempts_db] v e n
  show ?thesis by simp
qed

subsection \<open>Approving and rejecting a tenant\<close>

lemma updateUserStatus_tenants [simp]:
  "tenants (snd (databaseService_updateUserStatus now k s d)) = tenants d"
  by (simp add: databaseService_updateUserStatus_def split: lookup.split)

lemma activate_fold_tenants:
  "tenants (fold (activatePending now) us d) = tenants d"
  by (induction us arbitrary: d) (simp_all add: activatePending_def)

lemma tn_status_applyTenantUpdates:
  "upd_status updates = Some s \<Longrightarrow> tn_status (applyTenantUpdates updates r) = s"
  by (simp add: applyTenantUpdates_def assign_if_def split: option.split)

lemma updateTenant_present:
  assumes "map_of (tenants db) t = Some r"
  shows "dataService_updateTenant now t updates db =
           (Inr (Some (tenant_of_record
                   (applyTenantUpdates (updates\<lparr>upd_updatedAt := Some now\<rparr>) r))),
            saveDatabase now
              (db\<lparr>tenants := AList.update t
                    (applyTenantUpdates (updates\<lparr>upd_updatedAt := Some now\<rparr>) r) (tenants db)\<rparr>))"
  using assms
  by (simp add: dataService_updateTenant_def databaseService_updateTenant_def
      databaseService_getTenant_def table_get_Own update_conv' Let_def)

lemma approveTenant_tenants:
  assumes "map_of (tenants db) t = Some r"
  shows "fst (dataService_approveTenant tm now t by db) = Inr True"
    and "tenants (snd (dataService_approveTenant tm now t by db)) =
           AList.update t
             (applyTenantUpdates
                (noUpdates\<lparr>upd_status := Some TenantApproved, upd_isActive := Some True,
                           upd_approvedBy := Some by, upd_approvedAt := Some now,
                           upd_updatedAt := Some now\<rparr>) r) (tenants db)"
  using assms
  by (simp_all add: dataService_approveTenant_def dataService_getTenant_def
      databaseService_getTenant_def table_get_Own updateTenant_present activate_fold_tenants
      Let_def)

lemma rejectTenant_tenants:
  assumes "map_of (tenants db) t = Some r"
  shows "fst (dataService_rejectTenant now t by reason db) = Inr True"
    and "tenants (snd (dataService_rejectTenant now t by reason db)) =
           AList.update t
             (applyTenantUpdates
                (noUpdates\<lparr>upd_status := Some TenantRejected, upd_isActive := Some False,
                           upd_approvedBy := Some by, upd_approvedAt := Some now,
                           upd_rejectionReason := Some reason,
                           upd_updatedAt := Some now\<rparr>) r) (tenants db)"
  using assms
  by (simp_all add: dataService_rejectTenant_def dataService_getTenant_def
      databaseService_getTenant_def table_get_Own updateTenant_present Let_def)

text \<open>
  C2, as amended. \<^verbatim>\<open>approveTenant\<close> and \<^verbatim>\<open>rejectTenant\<close> have no guard on the
  current status: on every existing tenant, whatever its status, \<^verbatim>\<open>approveTenant\<close>
  returns true and leaves the status \<open>approved\<close>, \<^verbatim>\<open>rejectTenant\<close> returns true and
  leaves it \<open>rejected\<close>, and neither changes the row of another tenant. Approved and
  rejected are therefore not terminal.
\<close>

theorem approve_reject_any_status:
  assumes "map_of (tenants db) t = Some r"
  shows "fst (dataService_approveTenant tm now t actor db) = Inr True \<and>
         map_option tn_status (map_of (tenants (snd (dataService_approveTenant tm now t actor db))) t)
           = Some TenantApproved \<and>
         fst (dataService_rejectTenant now t actor reason db) = Inr True \<and>
         map_option tn_status (map_of (tenants (snd (dataService_rejectTenant now t actor reason db))) t)
           = Some TenantRejected \<and>
         (\<forall>t'. t' \<noteq> t \<longrightarrow>
            map_of (tenants (snd (dataService_approveTenant tm now t actor db))) t'
              = map_of (tenants db) t' \<and>
            map_of (tenants (snd (dataService_rejectTenant now t actor reason db))) t'
              = map_of (tenants db) t')"
  using assms
  by (simp add: approveTenant_tenants rejectTenant_tenants update_conv'
      tn_status_applyTenantUpdates)

lemma org_t2: "map_of (tenants org_db) ''t2'' = Some (snd (tenants org_db ! 1))"
  by (simp add: org_db_def)

text \<open>
  The claim as stated fails: a rejected tenant is approved by \<^verbatim>\<open>approveTenant\<close>.
\<close>

theorem approve_rejected_counterexample:
  "map_option tn_status (map_of (tenants org_db) ''t2'') = Some TenantRejected \<and>
   map_option tn_status
     (map_of (tenants (snd (dataService_approveTenant tm0 ''now'' ''t2'' ''root'' org_db))) ''t2'')
     = Some TenantApproved"
proof -
  have a: "map_option tn_status (map_of (tenants org_db) ''t2'') = Some TenantRejected"
    by (simp add: org_db_def)
  have b: "map_option tn_status
     (map_of (tenants (snd (dataService_approveTenant tm0 ''now'' ''t2'' ''root'' org_db))) ''t2'')
     = Some TenantApproved"
    by (simp add: approveTenant_tenants(2) [OF org_t2] update_conv'
        tn_status_applyTenantUpdates)
  from a b show ?thesis by simp
qed

theorem approve_reject_any_status_witness:
  "map_option tn_status (map_of (tenants org_db) ''t2'') = Some TenantRejected \<and>
   fst (dataService_rejectTenant ''now'' ''t2'' ''root'' ''late'' org_db) = Inr True \<and>
   map_option tn_status
     (map_of (tenants (snd (dataService_rejectTenant ''now'' ''t2'' ''root'' ''late'' org_db))) ''t2'')
     = Some TenantRejected \<and>
   map_of (tenants (snd (dataService_approveTenant tm0 ''now'' ''t2'' ''root'' org_db))) ''t1''
     = map_of (tenants org_db) ''t1''"
proof -
  have a: "map_option tn_status (map_of (tenants org_db) ''t2'') = Some TenantRejected"
    by (simp add: org_db_def)
  from approve_reject_any_status [OF org_t2, of tm0 "''now''" "''root''" "''late''"] a
  show ?thesis by simp
qed

subsection \<open>Creating a user\<close>

text \<open>
  C5, as amended. \<^verbatim>\<open>createUser\<close> tests the truth value of \<^verbatim>\<open>tenantId\<close>: it fails
  when the role is product-admin and \<^verbatim>\<open>tenantId\<close> is a non-empty string, and when the
  role is admin or user and \<^verbatim>\<open>tenantId\<close> is absent or empty. Every user it creates
  satisfies: product-admin implies \<^verbatim>\<open>tenantId\<close> absent or empty, admin or user implies
  \<^verbatim>\<open>tenantId\<close> a non-empty string; the stored row carries the same role and tenant id.
\<close>

theorem createUser_tenant_rule:
  "(role = ProductAdmin \<and> truthy tenantId \<longrightarrow>
      dataService_createUser now userId name email password role tenantId db
        = (Inl ProductAdminInTenant, db)) \<and>
   ((role = Admin \<or> role = User) \<and> \<not> truthy tenantId \<longrightarrow>
      dataService_createUser now userId name email password role tenantId db
        = (Inl TenantRequired, db)) \<and>
   (\<forall>u. fst (dataService_createUser now userId name email password role tenantId db) = Inr u \<longrightarrow>
      (user_role u = ProductAdmin \<longrightarrow> \<not> truthy (user_tenantId u)) \<and>
      (user_role u = Admin \<or> user_role u = User \<longrightarrow> truthy (user_tenantId u)) \<and>
      map_of (users (snd (dataService_createUser now userId name email password role tenantId db)))
          userId
        = Some \<lparr>ur_id = userId, ur_name = name, ur_email = email,
                 ur_password_hash = hashPassword password, ur_role = user_role u,
                 ur_tenant_id = user_tenantId u, ur_status = Active, ur_created_at = now\<rparr>)"
  by (cases role)
     (auto simp: dataService_createUser_def databaseService_createUser_def update_conv'
           split: option.splits)

text \<open>
  The claim as stated fails: with the empty string supplied as \<^verbatim>\<open>tenantId\<close>, a
  product-admin is created, and the user carries that tenant id.
\<close>

theorem createUser_empty_tenant_counterexample:
  "fst (dataService_createUser ''2024-05-01'' ''u1'' ''Root'' ''root@quiz.demo'' ''wel123''
          ProductAdmin (Some '''') empty_db)
     = Inr \<lparr>user_id = ''u1'', user_name = ''Root'', user_email = ''root@quiz.demo'',
             user_role = ProductAdmin, user_tenantId = Some '''', user_status = Active,
             user_createdAt = ''2024-05-01''\<rparr>"
  by (simp add: dataService_createUser_def databaseService_createUser_def truthy_def empty_db_def)

theorem createUser_tenant_rule_witness:
  "dataService_createUser ''2024-05-01'' ''u1'' ''Root'' ''root@quiz.demo'' ''wel123''
      ProductAdmin (Some ''t1'') empty_db = (Inl ProductAdminInTenant, empty_db) \<and>
   dataService_createUser ''2024-05-01'' ''u1'' ''Ann'' ''ann@acme.io'' ''pw1''
      Admin None empty_db = (Inl TenantRequired, empty_db) \<and>
   fst (dataService_createUser ''2024-05-01'' ''u1'' ''Ann'' ''ann@acme.io'' ''pw1''
      Admin (Some ''t1'') empty_db)
     = Inr \<lparr>user_id = ''u1'', user_name = ''Ann'', user_email = ''ann@acme.io'',
             user_role = Admin, user_tenantId = Some ''t1'', user_status = Active,
             user_createdAt = ''2024-05-01''\<rparr> \<and>
   map_option ur_tenant_id
     (map_of (users (snd (dataService_createUser ''2024-05-01'' ''u1'' ''Ann'' ''ann@acme.io''
        ''pw1'' Admin (Some ''t1'') empty_db))) ''u1'') = Some (Some ''t1'')"
proof -
  have t: "truthy (Some ''t1'')" "\<not> truthy None" by (simp_all add: truthy_def)
  have c: "fst (dataService_createUser ''2024-05-01'' ''u1'' ''Ann'' ''ann@acme.io'' ''pw1''
      Admin (Some ''t1'') empty_db)
     = Inr \<lparr>user_id = ''u1'', user_name = ''Ann'', user_email = ''ann@acme.io'',
             user_role = Admin, user_tenantId = Some ''t1'', user_status = Active,
             user_createdAt = ''2024-05-01''\<rparr>"
    by (simp add: dataService_createUser_def databaseService_createUser_def truthy_def empty_db_def)
  from createUser_tenant_rule [of ProductAdmin "Some ''t1''" "''2024-05-01''" "''u1''" "''Root''"
         "''root@quiz.demo''" "''wel123''" empty_db]
       createUser_tenant_rule [of Admin None "''2024-05-01''" "''u1''" "''Ann''"
         "''ann@acme.io''" "''pw1''" empty_db]
       createUser_tenant_rule [of Admin "Some ''t1''" "''2024-05-01''" "''u1''" "''Ann''"
         "''ann@acme.io''" "''pw1''" empty_db] t c
  show ?thesis by simp
qed

subsection \<open>Attributing an attempt to a quiz set\<close>

lemma saveTestResult_row:
  "map_option ua_quiz_set_id
     (map_of (user_attempts (snd (dataService_saveTestResult now attemptId result db))) attemptId)
   = Some (resolveQuizSetId result db)"
  by (simp add: dataService_saveTestResult_def databaseService_saveTestResult_def Let_def
      update_conv')

text \<open>
  C9, as amended. The stored attempt's \<open>quiz_set_id\<close> is the caller-supplied
  \<^verbatim>\<open>quizSetId\<close> when that is a non-empty string; otherwise (absent or empty), when
  \<^verbatim>\<open>quizType\<close> is "default" and a published quiz set exists, the id of the first
  published quiz set in iteration order; otherwise the string "default".
\<close>

theorem saveTestResult_quiz_set_id:
  "\<exists>row. map_of (user_attempts (snd (dataService_saveTestResult now attemptId result db))) attemptId
           = Some row \<and>
     (truthy (new_quizSetId result) \<longrightarrow> new_quizSetId result = Some (ua_quiz_set_id row)) \<and>
     (\<not> truthy (new_quizSetId result) \<and> new_quizType result = ''default'' \<longrightarrow>
        (\<forall>first rest. filter qs_is_published (map snd (quiz_sets db)) = first # rest \<longrightarrow>
           ua_quiz_set_id row = qs_id first) \<and>
        (filter qs_is_published (map snd (quiz_sets db)) = [] \<longrightarrow>
           ua_quiz_set_id row = ''default'')) \<and>
     (\<not> truthy (new_quizSetId result) \<and> new_quizType result \<noteq> ''default'' \<longrightarrow>
        ua_quiz_set_id row = ''default'')"
proof -
  from saveTestResult_row [of now attemptId result db]
  obtain row where
    r: "map_of (user_attempts (snd (dataService_saveTestResult now attemptId result db))) attemptId
          = Some row"
    and q: "ua_quiz_set_id row = resolveQuizSetId result db"
    by auto
  have "truthy (new_quizSetId result) \<longrightarrow> new_quizSetId result = Some (ua_quiz_set_id row)"
    using q by (auto simp: resolveQuizSetId_def truthy_def split: option.splits)
  moreover have "\<not> truthy (new_quizSetId result) \<and> new_quizType result = ''default'' \<longrightarrow>
        (\<forall>first rest. filter qs_is_published (map snd (quiz_sets db)) = first # rest \<longrightarrow>
           ua_quiz_set_id row = qs_id first) \<and>
        (filter qs_is_published (map snd (quiz_sets db)) = [] \<longrightarrow>
           ua_quiz_set_id row = ''default'')"
    using q by (simp add: resolveQuizSetId_def)
  moreover have "\<not> truthy (new_quizSetId result) \<and> new_quizType result \<noteq> ''default'' \<longrightarrow>
        ua_quiz_set_id row = ''default''"
    using q by (simp add: resolveQuizSetId_def)
  ultimately show ?thesis using r by blast
qed

text \<open>
  The claim as stated fails: a supplied empty \<^verbatim>\<open>quizSetId\<close> is not what is stored;
  the attempt goes to the first published quiz set.
\<close>

theorem saveTestResult_empty_id_counterexample:
  "new_quizSetId (quiz_result ''default'' (Some '''')) = Some '''' \<and>
   map_option ua_quiz_set_id
     (map_of (user_attempts
        (snd (dataService_saveTestResult ''2024-06-01'' ''a9'' (quiz_result ''default'' (Some ''''))
                org_db))) ''a9'')
     = Some ''q1''"
  by (simp add: saveTestResult_row resolveQuizSetId_def truthy_def quiz_result_def org_db_def)

theorem saveTestResult_quiz_set_id_witness:
  "map_option ua_quiz_set_id
     (map_of (user_attempts
        (snd (dataService_saveTestResult ''2024-06-01'' ''a9'' (quiz_result ''custom'' (Some ''q2''))
                org_db))) ''a9'') = Some ''q2'' \<and>
   map_option ua_quiz_set_id
     (map_of (user_attempts
        (snd (dataService_saveTestResult ''2024-06-01'' ''a9'' (quiz_result ''default'' None)
                org_db))) ''a9'') = Some ''q1'' \<and>
   map_option ua_quiz_set_id
     (map_of (user_attempts
        (snd (dataService_saveTestResult ''2024-06-01'' ''a9'' (quiz_result ''default'' None)
                empty_db))) ''a9'') = Some ''default'' \<and>
   map_option ua_quiz_set_id
     (map_of (user_attempts
        (snd (dataService_saveTestResult ''2024-06-01'' ''a9'' (quiz_result ''custom'' None)
                org_db))) ''a9'') = Some ''default''"
proof -
  have t: "truthy (new_quizSetId (quiz_result ''custom'' (Some ''q2'')))"
      "new_quizSetId (quiz_result ''custom'' (Some ''q2'')) = Some ''q2''"
      "\<And>ty. \<not> truthy (new_quizSetId (quiz_result ty None))"
      "\<And>i. new_quizType (quiz_result ''default'' i) = ''default''"
      "\<And>i. new_quizType (quiz_result ''custom'' i) \<noteq> ''default''"
    by (simp_all add: truthy_def quiz_result_def)
  have p: "filter qs_is_published (map snd (quiz_sets org_db)) = [snd (quiz_sets org_db ! 0)]"
      "qs_id (snd (quiz_sets org_db ! 0)) = ''q1''"
      "filter qs_is_published (map snd (quiz_sets empty_db)) = []"
    by (simp_all add: org_db_def empty_db_def)
  from saveTestResult_quiz_set_id [of "''2024-06-01''" "''a9''" "quiz_result ''custom'' (Some ''q2'')" org_db]
       saveTestResult_quiz_set_id [of "''2024-06-01''" "''a9''" "quiz_result ''default'' None" org_db]
       saveTestResult_quiz_set_id [of "''2024-06-01''" "''a9''" "quiz_result ''default'' None" empty_db]
       saveTestResult_quiz_set_id [of "''2024-06-01''" "''a9''" "quiz_result ''custom'' None" org_db]
       t p
  show ?thesis by auto
qed

subsection \<open>Login\<close>

lemma loginUser_result:
  "fst (dataService_loginUser now sessionId email password db) =
     (case find (\<lambda>u. ur_email u = email) (map snd (users db)) of
        None \<Rightarrow> None
      | Some u \<Rightarrow>
          if verifyPassword password (ur_password_hash u) \<and> ur_status u \<noteq> Pending
          then Some (user_of_record u) else None)"
  by (simp add: dataService_loginUser_def databaseService_loginUser_def Let_def user_of_record_def
      split: option.split)

text \<open>
  C8. The adapter's \<^verbatim>\<open>loginUser(email, password)\<close> returns null when no user has
  exactly that email, and, for the first user \<open>u\<close> with that email, when the digest of
  the password differs from the stored one or when \<open>u\<close> is pending; in every other case
  it returns \<open>u\<close> as a user object. The three failures give the same value.
\<close>

theorem loginUser_null_or_user:
  "(\<not> (\<exists>u \<in> snd ` set (users db). ur_email u = email) \<longrightarrow>
      fst (dataService_loginUser now sessionId email password db) = None) \<and>
   (\<forall>u. find (\<lambda>u. ur_email u = email) (map snd (users db)) = Some u \<longrightarrow>
      (\<not> verifyPassword password (ur_password_hash u) \<longrightarrow>
         fst (dataService_loginUser now sessionId email password db) = None) \<and>
      (ur_status u = Pending \<longrightarrow>
         fst (dataService_loginUser now sessionId email password db) = None) \<and>
      (verifyPassword password (ur_password_hash u) \<and> ur_status u \<noteq> Pending \<longrightarrow>
         fst (dataService_loginUser now sessionId email password db) = Some (user_of_record u)))"
proof -
  have "\<not> (\<exists>u \<in> snd ` set (users db). ur_email u = email) \<Longrightarrow>
        find (\<lambda>u. ur_email u = email) (map snd (users db)) = None"
    by (simp add: find_None_iff)
  then show ?thesis by (auto simp: loginUser_result)
qed

theorem loginUser_null_or_user_witness:
  "fst (dataService_loginUser ''now'' ''s1'' ''nobody@acme.io'' ''pw1'' org_db) = None \<and>
   fst (dataService_loginUser ''now'' ''s1'' ''Al@acme.io'' ''pw2'' org_db) = None \<and>
   fst (dataService_loginUser ''now'' ''s1'' ''root@quiz.demo'' ''wel124'' org_db) = None \<and>
   fst (dataService_loginUser ''now'' ''s1'' ''ann@acme.io'' ''pw1'' org_db) = None \<and>
   fst (dataService_loginUser ''now'' ''s1'' ''root@quiz.demo'' ''wel123'' org_db)
     = Some \<lparr>user_id = ''root'', user_name = ''Root'', user_email = ''root@quiz.demo'',
              user_role = ProductAdmin, user_tenantId = None, user_status = Active,
              user_createdAt = ''2024-01-01''\<rparr>"
proof -
  have n: "\<not> (\<exists>u \<in> snd ` set (users org_db). ur_email u = ''nobody@acme.io'')"
      "\<not> (\<exists>u \<in> snd ` set (users org_db). ur_email u = ''Al@acme.io'')"
    by (simp_all add: org_db_def)
  have f: "find (\<lambda>u. ur_email u = ''root@quiz.demo'') (map snd (users org_db))
             = Some (snd (users org_db ! 0))"
      "find (\<lambda>u. ur_email u = ''ann@acme.io'') (map snd (users org_db))
             = Some (snd (users org_db ! 1))"
    by (simp_all add: org_db_def)
  have h: "hashPassword ''wel123'' = ''5q7k8u''" "hashPassword ''wel124'' \<noteq> ''5q7k8u''"
    by (simp_all add: hashPassword_def hashStep_def toString36.simps digit36_def)
  have v: "verifyPassword ''wel123'' (ur_password_hash (snd (users org_db ! 0)))"
      "\<not> verifyPassword ''wel124'' (ur_password_hash (snd (users org_db ! 0)))"
      "ur_status (snd (users org_db ! 0)) \<noteq> Pending"
      "ur_status (snd (users org_db ! 1)) = Pending"
      "user_of_record (snd (users org_db ! 0))
         = \<lparr>user_id = ''root'', user_name = ''Root'', user_email = ''root@quiz.demo'',
              user_role = ProductAdmin, user_tenantId = None, user_status = Active,
              user_createdAt = ''2024-01-01''\<rparr>"
    using h by (simp_all add: org_db_def verifyPassword_def user_of_record_def)
  from loginUser_null_or_user [of org_db "''nobody@acme.io''" "''now''" "''s1''" "''pw1''"]
       loginUser_null_or_user [of org_db "''Al@acme.io''" "''now''" "''s1''" "''pw2''"]
       loginUser_null_or_user [of org_db "''root@quiz.demo''" "''now''" "''s1''" "''wel124''"]
       loginUser_null_or_user [of org_db "''ann@acme.io''" "''now''" "''s1''" "''pw1''"]
       loginUser_null_or_user [of org_db "''root@quiz.demo''" "''now''" "''s1''" "''wel123''"]
       n f v
  show ?thesis by simp
qed

text \<open>
  C10. When the adapter's \<^verbatim>\<open>loginUser\<close> is called with the correct password of a
  pending user (stored under its own id), it returns null, yet the session table now
  holds exactly one row, for that user, and \<^verbatim>\<open>getCurrentUser()\<close> returns the pending
  user.
\<close>

theorem pending_login_sets_session:
  assumes "find (\<lambda>u. ur_email u = email) (map snd (users db)) = Some u"
    and "verifyPassword password (ur_password_hash u)"
    and "ur_status u = Pending"
    and "map_of (users db) (ur_id u) = Some u"
  shows "fst (dataService_loginUser now sessionId email password db) = None \<and>
         user_sessions (snd (dataService_loginUser now sessionId email password db))
           = [(sessionId, \<lparr>us_id = sessionId, us_user_id = ur_id u\<rparr>)] \<and>
         dataService_getCurrentUser (snd (dataService_loginUser now sessionId email password db))
           = Some (user_of_record u) \<and>
         user_status (user_of_record u) = Pending"
  using assms
  by (simp add: dataService_loginUser_def databaseService_loginUser_def Let_def
      dataService_getCurrentUser_def databaseService_getCurrentUser_def user_of_record_def)

theorem pending_login_sets_session_witness:
  "dataService_getCurrentUser org_db
     = Some \<lparr>user_id = ''root'', user_name = ''Root'', user_email = ''root@quiz.demo'',
              user_role = ProductAdmin, user_tenantId = None, user_status = Active,
              user_createdAt = ''2024-01-01''\<rparr> \<and>
   fst (dataService_loginUser ''now'' ''s1'' ''ann@acme.io'' ''pw1'' org_db) = None \<and>
   user_sessions (snd (dataService_loginUser ''now'' ''s1'' ''ann@acme.io'' ''pw1'' org_db))
     = [(''s1'', \<lparr>us_id = ''s1'', us_user_id = ''u1''\<rparr>)] \<and>
   dataService_getCurrentUser (snd (dataService_loginUser ''now'' ''s1'' ''ann@acme.io'' ''pw1'' org_db))
     = Some \<lparr>user_id = ''u1'', user_name = ''Ann'', user_email = ''ann@acme.io'',
              user_role = Admin, user_tenantId = Some ''t1'', user_status = Pending,
              user_createdAt = ''2024-01-01''\<rparr>"
proof -
  let ?u = "snd (users org_db ! 1)"
  have f: "find (\<lambda>u. ur_email u = ''ann@acme.io'') (map snd (users org_db)) = Some ?u"
    by (simp add: org_db_def)
  have v: "verifyPassword ''pw1'' (ur_password_hash ?u)"
    by (simp add: org_db_def verifyPassword_def)
  have p: "ur_status ?u = Pending" by (simp add: org_db_def)
  have k: "map_of (users org_db) (ur_id ?u) = Some ?u" by (simp add: org_db_def)
  have c: "dataService_getCurrentUser org_db
     = Some \<lparr>user_id = ''root'', user_name = ''Root'', user_email = ''root@quiz.demo'',
              user_role = ProductAdmin, user_tenantId = None, user_status = Active,
              user_createdAt = ''2024-01-01''\<rparr>"
    by (simp add: org_db_def dataService_getCurrentUser_def databaseService_getCurrentUser_def
        user_of_record_def)
  have e: "ur_id ?u = ''u1''"
     "user_of_record ?u = \<lparr>user_id = ''u1'', user_name = ''Ann'', user_email = ''ann@acme.io'',
              user_role = Admin, user_tenantId = Some ''t1'', user_status = Pending,
              user_createdAt = ''2024-01-01''\<rparr>"
    by (simp_all add: org_db_def user_of_record_def)
  from pending_login_sets_session [OF f v p k, of "''now''" "''s1''"] c e
  show ?thesis by simp
qed

subsection \<open>Approval activates the pending users of the tenant\<close>

lemma update_as_map:
  "distinct (map fst t) \<Longrightarrow> map_of t k = Some r \<Longrightarrow>
   AList.update k v t = map (\<lambda>(k', u). (k', if k' = k then v else u)) t"
proof (induction t)
  case Nil
  then show ?case by simp
next
  case (Cons p t)
  obtain k0 u0 where p: "p = (k0, u0)" by (cases p)
  show ?case
  proof (cases "k0 = k")
    case True
    with Cons.prems p have "k \<notin> fst ` set t" by auto
    then have "map (\<lambda>(k', u). (k', if k' = k then v else u)) t = t"
      by (intro map_idI) force
    with True p show ?thesis by simp
  next
    case False
    with Cons p show ?thesis by simp
  qed
qed

lemma updateUserStatus_users:
  assumes "distinct (map fst (users d))"
  shows "users (snd (databaseService_updateUserStatus now k s d)) =
           map (\<lambda>(k', u). (k', if k' = k then u\<lparr>ur_status := s\<rparr> else u)) (users d)"
proof (cases "map_of (users d) k")
  case None
  then have "k \<notin> fst ` set (users d)" by (simp add: map_of_eq_None_iff)
  then have "map (\<lambda>(k', u). (k', if k' = k then u\<lparr>ur_status := s\<rparr> else u)) (users d) = users d"
    by (intro map_idI) force
  with None show ?thesis
    by (simp add: databaseService_updateUserStatus_def table_get_def split: lookup.split)
next
  case (Some r)
  have mem: "\<And>u. (k, u) \<in> set (users d) \<Longrightarrow> u = r"
    using Some assms by (metis map_of_eq_Some_iff option.inject)
  have "AList.update k (r\<lparr>ur_status := s\<rparr>) (users d) =
        map (\<lambda>(k', u). (k', if k' = k then r\<lparr>ur_status := s\<rparr> else u)) (users d)"
    using assms Some by (rule update_as_map)
  also have "\<dots> = map (\<lambda>(k', u). (k', if k' = k then u\<lparr>ur_status := s\<rparr> else u)) (users d)"
    using mem by (intro map_cong) auto
  finally show ?thesis
    using Some by (simp add: databaseService_updateUserStatus_def table_get_Own)
qed

lemma activate_fold_users:
  "distinct (map fst (users d)) \<Longrightarrow>
   users (fold (activatePending now) us d) =
     map (\<lambda>(k, u). (k, if k \<in> user_id ` {x \<in> set us. user_status x = Pending}
                          then u\<lparr>ur_status := Active\<rparr> else u)) (users d)"
proof (induction us arbitrary: d)
  case Nil
  then show ?case by (simp add: map_idI case_prod_unfold)
next
  case (Cons x us)
  let ?d1 = "activatePending now x d"
  let ?S = "user_id ` {y \<in> set us. user_status y = Pending}"
  show ?case
  proof (cases "user_status x = Pending")
    case False
    then have "?d1 = d" by (simp add: activatePending_def)
    moreover from False have "user_id ` {y \<in> set (x # us). user_status y = Pending} = ?S"
      by auto
    ultimately show ?thesis using Cons.IH [OF Cons.prems] by simp
  next
    case True
    have u1: "users ?d1 =
        map (\<lambda>(k', u). (k', if k' = user_id x then u\<lparr>ur_status := Active\<rparr> else u)) (users d)"
      using True Cons.prems by (simp add: activatePending_def updateUserStatus_users)
    then have d1: "distinct (map fst (users ?d1))"
      using Cons.prems by (simp add: case_prod_unfold comp_def)
    from True have S: "user_id ` {y \<in> set (x # us). user_status y = Pending} = insert (user_id x) ?S"
      by auto
    have "users (fold (activatePending now) (x # us) d) = users (fold (activatePending now) us ?d1)"
      by simp
    also have "\<dots> = map (\<lambda>(k, u). (k, if k \<in> ?S then u\<lparr>ur_status := Active\<rparr> else u)) (users ?d1)"
      by (rule Cons.IH [OF d1])
    also have "\<dots> = map (\<lambda>(k, u). (k, if k \<in> insert (user_id x) ?S
                                         then u\<lparr>ur_status := Active\<rparr> else u)) (users d)"
      unfolding u1 by (simp add: case_prod_unfold comp_def)
    finally show ?thesis unfolding S .
  qed
qed

lemma getUsersByTenant_pending_ids:
  assumes "keyed_by ur_id (users db)" and "(k, u) \<in> set (users db)"
  shows "k \<in> user_id ` {x \<in> set (dataService_getUsersByTenant tm t db). user_status x = Pending}
         \<longleftrightarrow> ur_tenant_id u = Some t \<and> ur_status u = Pending"
proof
  assume "k \<in> user_id ` {x \<in> set (dataService_getUsersByTenant tm t db). user_status x = Pending}"
  then obtain k2 r where k2: "(k2, r) \<in> set (users db)" and r: "ur_id r = k"
      "ur_tenant_id r = Some t" "ur_status r = Pending"
    by (auto simp: dataService_getUsersByTenant_def databaseService_getUsers_def user_of_record_def)
  with assms(1) r(1) have "k2 = k" by (auto simp: keyed_by_def)
  with k2 assms have "r = u"
    by (metis keyed_by_def map_of_eq_Some_iff option.inject)
  with r show "ur_tenant_id u = Some t \<and> ur_status u = Pending" by simp
next
  assume a: "ur_tenant_id u = Some t \<and> ur_status u = Pending"
  from assms have "ur_id u = k" by (auto simp: keyed_by_def)
  moreover from assms(2) have "u \<in> snd ` set (users db)" by force
  ultimately show "k \<in> user_id ` {x \<in> set (dataService_getUsersByTenant tm t db). user_status x = Pending}"
    using a
    by (force simp: dataService_getUsersByTenant_def databaseService_getUsers_def
        user_of_record_def image_iff)
qed

lemma getUsersByTenant_users_cong:
  "users d = users d' \<Longrightarrow> dataService_getUsersByTenant tm t d = dataService_getUsersByTenant tm t d'"
  by (simp add: dataService_getUsersByTenant_def databaseService_getUsers_def)

lemma approveTenant_present:
  assumes "map_of (tenants db) t = Some r"
  shows "snd (dataService_approveTenant tm now t actor db) =
           fold (activatePending now) (dataService_getUsersByTenant tm t db)
             (snd (dataService_updateTenant now t
                (noUpdates\<lparr>upd_status := Some TenantApproved, upd_isActive := Some True,
                           upd_approvedBy := Some actor, upd_approvedAt := Some now\<rparr>) db))"
proof -
  let ?upd = "noUpdates\<lparr>upd_status := Some TenantApproved, upd_isActive := Some True,
                         upd_approvedBy := Some actor, upd_approvedAt := Some now\<rparr>"
  have u: "users (snd (dataService_updateTenant now t ?upd db)) = users db"
    using assms by (simp add: updateTenant_present)
  have g: "dataService_getUsersByTenant tm t (snd (dataService_updateTenant now t ?upd db))
           = dataService_getUsersByTenant tm t db"
    using u by (rule getUsersByTenant_users_cong)
  show ?thesis
    using assms g
    by (simp add: dataService_approveTenant_def dataService_getTenant_def
        databaseService_getTenant_def table_get_Own updateTenant_present Let_def)
qed

lemma approveTenant_users:
  assumes "keyed_by ur_id (users db)" and "map_of (tenants db) t = Some r"
  shows "users (snd (dataService_approveTenant tm now t actor db)) =
           map (\<lambda>(k, u). (k, if ur_tenant_id u = Some t \<and> ur_status u = Pending
                                then u\<lparr>ur_status := Active\<rparr> else u)) (users db)"
proof -
  let ?upd = "noUpdates\<lparr>upd_status := Some TenantApproved, upd_isActive := Some True,
                         upd_approvedBy := Some actor, upd_approvedAt := Some now\<rparr>"
  let ?d1 = "snd (dataService_updateTenant now t ?upd db)"
  let ?S = "user_id ` {x \<in> set (dataService_getUsersByTenant tm t db). user_status x = Pending}"
  have u: "users ?d1 = users db"
    using assms(2) by (simp add: updateTenant_present)
  have d: "distinct (map fst (users ?d1))"
    using assms(1) u by (simp add: keyed_by_def)
  have "users (snd (dataService_approveTenant tm now t actor db)) =
        users (fold (activatePending now) (dataService_getUsersByTenant tm t db) ?d1)"
    using assms(2) by (simp add: approveTenant_present)
  also have "\<dots> = map (\<lambda>(k, u). (k, if k \<in> ?S then u\<lparr>ur_status := Active\<rparr> else u)) (users ?d1)"
    using d by (rule activate_fold_users)
  also have "\<dots> = map (\<lambda>(k, u). (k, if ur_tenant_id u = Some t \<and> ur_status u = Pending
                                then u\<lparr>ur_status := Active\<rparr> else u)) (users db)"
    unfolding u
    using getUsersByTenant_pending_ids [OF assms(1), of _ _ tm t]
    by (intro map_cong) auto
  finally show ?thesis .
qed





lemma org_t1: "map_of (tenants org_db) ''t1'' = Some (snd (tenants org_db ! 0))"
  by (simp add: org_db_def)


subsection \<open>Deleting a tenant\<close>

lemma getQuizSetById_keyed:
  assumes "keyed_by qs_id (quiz_sets db)" and "(k, r) \<in> set (quiz_sets db)"
  shows "\<exists>q. getQuizSetById (qs_id r) db = Some q \<and> quiz_id q = k \<and>
              quiz_tenantId q = qs_tenant_id r"
proof -
  from assms have i: "qs_id r = k" by (auto simp: keyed_by_def)
  from assms have "map_of (quiz_sets db) k = Some r" by (simp add: keyed_by_def)
  with i show ?thesis by (simp add: getQuizSetById_def Let_def)
qed

lemma getQuizSetById_Some:
  "getQuizSetById i db = Some q \<Longrightarrow>
   \<exists>r. (i, r) \<in> set (quiz_sets db) \<and> quiz_id q = qs_id r \<and> quiz_tenantId q = qs_tenant_id r"
  by (auto simp: getQuizSetById_def Let_def split: option.splits dest: map_of_SomeD)

lemma truthy_Some [simp]: "truthy (Some t) \<longleftrightarrow> t \<noteq> []"
  by (simp add: truthy_def)

lemma getQuizSetsByTenant_ids:
  assumes "keyed_by qs_id (quiz_sets db)"
  shows "quiz_id ` set (dataService_getQuizSetsByTenant tm t db) =
           {k. \<exists>r. (k, r) \<in> set (quiz_sets db) \<and> in_scope t (qs_tenant_id r)}"
    (is "?L = ?R")
proof
  show "?L \<subseteq> ?R"
  proof
    fix k assume "k \<in> ?L"
    then obtain q k0 r0 where q: "quiz_id q = k" "(k0, r0) \<in> set (quiz_sets db)"
        "getQuizSetById (qs_id r0) db = Some q" "t \<noteq> [] \<longrightarrow> quiz_tenantId q = Some t"
      by (auto simp: dataService_getQuizSetsByTenant_def dataService_getQuizSets_def Let_def
          databaseService_getQuizSets_def map_filter_def split: if_splits)
    from getQuizSetById_Some [OF q(3)] obtain r where
      r: "(qs_id r0, r) \<in> set (quiz_sets db)" "quiz_id q = qs_id r" "quiz_tenantId q = qs_tenant_id r"
      by blast
    from assms r(1) have "qs_id r = qs_id r0" by (auto simp: keyed_by_def)
    with r q show "k \<in> ?R" by (auto simp: in_scope_def)
  qed
next
  show "?R \<subseteq> ?L"
  proof
    fix k assume "k \<in> ?R"
    then obtain r where r: "(k, r) \<in> set (quiz_sets db)" "in_scope t (qs_tenant_id r)" by blast
    from getQuizSetById_keyed [OF assms r(1)] obtain q where
      q: "getQuizSetById (qs_id r) db = Some q" "quiz_id q = k" "quiz_tenantId q = qs_tenant_id r"
      by blast
    from r(1) have m: "r \<in> snd ` set (quiz_sets db)" by force
    have "q \<in> set (databaseService_getQuizSets tm db)"
      using m q(1) by (force simp: databaseService_getQuizSets_def map_filter_def image_iff)
    with q r(2) have "q \<in> set (dataService_getQuizSetsByTenant tm t db)"
      by (auto simp: dataService_getQuizSetsByTenant_def dataService_getQuizSets_def Let_def
          in_scope_def)
    with q(2) show "k \<in> ?L" by force
  qed
qed

lemma getTestResultsByTenant_ids:
  assumes "keyed_by ua_id (user_attempts db)"
  shows "result_id ` set (dataService_getTestResultsByTenant tm t db) =
           {k. \<exists>a. (k, a) \<in> set (user_attempts db) \<and> in_scope t (ua_tenant_id a)}"
    (is "?L = ?R")
proof
  show "?L \<subseteq> ?R"
  proof
    fix k assume "k \<in> ?L"
    then obtain k0 a where a: "(k0, a) \<in> set (user_attempts db)" "ua_id a = k"
        "t \<noteq> [] \<longrightarrow> ua_tenant_id a = Some t"
      by (auto simp: dataService_getTestResultsByTenant_def dataService_getTestResults_def Let_def
          databaseService_getTestResults_def result_of_record_def split: if_splits)
    from assms a(1,2) have "k0 = k" by (auto simp: keyed_by_def)
    with a show "k \<in> ?R" by (auto simp: in_scope_def)
  qed
next
  show "?R \<subseteq> ?L"
  proof
    fix k assume "k \<in> ?R"
    then obtain a where a: "(k, a) \<in> set (user_attempts db)" "in_scope t (ua_tenant_id a)" by blast
    from assms a(1) have i: "ua_id a = k" by (auto simp: keyed_by_def)
    from a(1) have m: "a \<in> snd ` set (user_attempts db)" by force
    have "result_of_record db a \<in> set (dataService_getTestResultsByTenant tm t db)"
      using m a(2)
      by (auto simp: dataService_getTestResultsByTenant_def dataService_getTestResults_def Let_def
          databaseService_getTestResults_def result_of_record_def in_scope_def)
    moreover have "result_id (result_of_record db a) = k"
      using i by (simp add: result_of_record_def Let_def)
    ultimately show "k \<in> ?L" by force
  qed
qed

lemma deleteQuizSet_quiz_sets:
  "quiz_sets (snd (databaseService_deleteQuizSet now i db)) = AList.delete i (quiz_sets db)"
proof (cases "table_get (quiz_sets db) i = Absent")
  case True
  then have "AList.delete i (quiz_sets db) = quiz_sets db"
    by (simp add: table_get_Absent_iff delete_no_row)
  with True show ?thesis by (simp add: deleteQuizSet_absent)
next
  case False
  then show ?thesis
    by (simp add: databaseService_deleteQuizSet_def Let_def split: lookup.split)
qed

lemma deleteQuizSet_quiz_questions:
  assumes "distinct (map fst (quiz_questions db))"
  shows "quiz_questions (snd (databaseService_deleteQuizSet now i db)) =
           filter (\<lambda>(k, q). \<not> (qq_quiz_set_id q = i \<and> table_get (quiz_sets db) i \<noteq> Absent))
             (quiz_questions db)"
proof (cases "table_get (quiz_sets db) i = Absent")
  case True
  then show ?thesis by (simp add: deleteQuizSet_absent)
next
  case False
  with assms show ?thesis by (simp add: deleteQuizSet_present)
qed

lemma deleteQuizSet_frame [simp]:
  "tenants (snd (databaseService_deleteQuizSet now i db)) = tenants db"
  "users (snd (databaseService_deleteQuizSet now i db)) = users db"
  "user_attempts (snd (databaseService_deleteQuizSet now i db)) = user_attempts db"
  "attempt_answers (snd (databaseService_deleteQuizSet now i db)) = attempt_answers db"
  "user_sessions (snd (databaseService_deleteQuizSet now i db)) = user_sessions db"
  by (simp_all add: databaseService_deleteQuizSet_def Let_def split: lookup.split)

lemma fold_deleteQuizSet_frame [simp]:
  "tenants (fold (\<lambda>i d. snd (databaseService_deleteQuizSet now i d)) ids db) = tenants db"
  "users (fold (\<lambda>i d. snd (databaseService_deleteQuizSet now i d)) ids db) = users db"
  "user_attempts (fold (\<lambda>i d. snd (databaseService_deleteQuizSet now i d)) ids db) = user_attempts db"
  "attempt_answers (fold (\<lambda>i d. snd (databaseService_deleteQuizSet now i d)) ids db) = attempt_answers db"
  "user_sessions (fold (\<lambda>i d. snd (databaseService_deleteQuizSet now i d)) ids db) = user_sessions db"
  by (induction ids arbitrary: db) simp_all

lemma fold_deleteQuizSet_quiz_sets:
  "quiz_sets (fold (\<lambda>i d. snd (databaseService_deleteQuizSet now i d)) ids db) =
     filter (\<lambda>(k, r). k \<notin> set ids) (quiz_sets db)"
proof (induction ids arbitrary: db)
  case Nil
  then show ?case by simp
next
  case (Cons i ids)
  have "quiz_sets (fold (\<lambda>i d. snd (databaseService_deleteQuizSet now i d)) (i # ids) db) =
        filter (\<lambda>(k, r). k \<notin> set ids) (AList.delete i (quiz_sets db))"
    by (simp add: Cons.IH deleteQuizSet_quiz_sets)
  also have "\<dots> = filter (\<lambda>(k, r). k \<notin> set (i # ids)) (quiz_sets db)"
    by (auto simp: AList.delete_eq intro: filter_cong)
  finally show ?case .
qed

lemma table_get_delete:
  "table_get (AList.delete i t) j \<noteq> Absent \<longleftrightarrow>
     (if j = i then j \<in> set objectPrototypeNames else table_get t j \<noteq> Absent)"
  by (simp add: table_get_def delete_conv' split: option.split)

lemma fold_deleteQuizSet_quiz_questions:
  "distinct (map fst (quiz_questions db)) \<Longrightarrow>
   quiz_questions (fold (\<lambda>i d. snd (databaseService_deleteQuizSet now i d)) ids db) =
     filter (\<lambda>(k, q). \<not> (qq_quiz_set_id q \<in> set ids \<and>
                            table_get (quiz_sets db) (qq_quiz_set_id q) \<noteq> Absent))
       (quiz_questions db)"
proof (induction ids arbitrary: db)
  case Nil
  then show ?case by simp
next
  case (Cons i ids)
  let ?d1 = "snd (databaseService_deleteQuizSet now i db)"
  have q1: "quiz_questions ?d1 =
      filter (\<lambda>(k, q). \<not> (qq_quiz_set_id q = i \<and> table_get (quiz_sets db) i \<noteq> Absent))
        (quiz_questions db)"
    using Cons.prems by (rule deleteQuizSet_quiz_questions)
  have d1: "distinct (map fst (quiz_questions ?d1))"
    unfolding q1 using Cons.prems by (simp add: distinct_map_filter)
  have s1: "\<And>j. table_get (quiz_sets ?d1) j \<noteq> Absent \<longleftrightarrow>
      (if j = i then j \<in> set objectPrototypeNames else table_get (quiz_sets db) j \<noteq> Absent)"
    unfolding deleteQuizSet_quiz_sets by (rule table_get_delete)
  have a1: "table_get (quiz_sets db) i = Absent \<Longrightarrow> i \<notin> set objectPrototypeNames"
    by (simp add: table_get_Absent_iff)
  have "quiz_questions (fold (\<lambda>i d. snd (databaseService_deleteQuizSet now i d)) (i # ids) db) =
        filter (\<lambda>(k, q). \<not> (qq_quiz_set_id q \<in> set ids \<and>
                               table_get (quiz_sets ?d1) (qq_quiz_set_id q) \<noteq> Absent))
          (quiz_questions ?d1)"
    using Cons.IH [OF d1] by simp
  also have "\<dots> = filter (\<lambda>(k, q). \<not> (qq_quiz_set_id q \<in> set (i # ids) \<and>
                                        table_get (quiz_sets db) (qq_quiz_set_id q) \<noteq> Absent))
                      (quiz_questions db)"
    unfolding q1 s1 using a1 by (auto intro: filter_cong)
  finally show ?case .
qed

lemma deleteTestResult_user_attempts:
  "user_attempts (snd (databaseService_deleteTestResult now i db)) = AList.delete i (user_attempts db)"
proof (cases "table_get (user_attempts db) i = Absent")
  case True
  then have "AList.delete i (user_attempts db) = user_attempts db"
    by (simp add: table_get_Absent_iff delete_no_row)
  with True show ?thesis by (simp add: databaseService_deleteTestResult_def)
next
  case False
  then show ?thesis by (simp add: databaseService_deleteTestResult_def split: lookup.split)
qed

lemma deleteTestResult_frame [simp]:
  "tenants (snd (databaseService_deleteTestResult now i db)) = tenants db"
  "users (snd (databaseService_deleteTestResult now i db)) = users db"
  "quiz_sets (snd (databaseService_deleteTestResult now i db)) = quiz_sets db"
  "quiz_questions (snd (databaseService_deleteTestResult now i db)) = quiz_questions db"
  "attempt_answers (snd (databaseService_deleteTestResult now i db)) = attempt_answers db"
  "user_sessions (snd (databaseService_deleteTestResult now i db)) = user_sessions db"
  by (simp_all add: databaseService_deleteTestResult_def split: lookup.split)

lemma fold_deleteTestResult_frame [simp]:
  "tenants (fold (\<lambda>i d. snd (databaseService_deleteTestResult now i d)) ids db) = tenants db"
  "users (fold (\<lambda>i d. snd (databaseService_deleteTestResult now i d)) ids db) = users db"
  "quiz_sets (fold (\<lambda>i d. snd (databaseService_deleteTestResult now i d)) ids db) = quiz_sets db"
  "quiz_questions (fold (\<lambda>i d. snd (databaseService_deleteTestResult now i d)) ids db) = quiz_questions db"
  "attempt_answers (fold (\<lambda>i d. snd (databaseService_deleteTestResult now i d)) ids db) = attempt_answers db"
  "user_sessions (fold (\<lambda>i d. snd (databaseService_deleteTestResult now i d)) ids db) = user_sessions db"
  by (induction ids arbitrary: db) simp_all

lemma fold_deleteTestResult_user_attempts:
  "user_attempts (fold (\<lambda>i d. snd (databaseService_deleteTestResult now i d)) ids db) =
     filter (\<lambda>(k, a). k \<notin> set ids) (user_attempts db)"
proof (induction ids arbitrary: db)
  case Nil
  then show ?case by simp
next
  case (Cons i ids)
  have "user_attempts (fold (\<lambda>i d. snd (databaseService_deleteTestResult now i d)) (i # ids) db) =
        filter (\<lambda>(k, a). k \<notin> set ids) (AList.delete i (user_attempts db))"
    by (simp add: Cons.IH deleteTestResult_user_attempts)
  also have "\<dots> = filter (\<lambda>(k, a). k \<notin> set (i # ids)) (user_attempts db)"
    by (auto simp: AList.delete_eq intro: filter_cong)
  finally show ?case .
qed

lemma deleteTenant_store [simp]:
  "fst (databaseService_deleteTenant now t db) = (table_get (tenants db) t \<noteq> Absent)"
  "tenants (snd (databaseService_deleteTenant now t db)) = AList.delete t (tenants db)"
  "users (snd (databaseService_deleteTenant now t db)) = users db"
  "quiz_sets (snd (databaseService_deleteTenant now t db)) = quiz_sets db"
  "quiz_questions (snd (databaseService_deleteTenant now t db)) = quiz_questions db"
  "user_attempts (snd (databaseService_deleteTenant now t db)) = user_attempts db"
proof -
  have "table_get (tenants db) t = Absent \<Longrightarrow> AList.delete t (tenants db) = tenants db"
    by (simp add: table_get_Absent_iff delete_no_row)
  then show "tenants (snd (databaseService_deleteTenant now t db)) = AList.delete t (tenants db)"
    by (simp add: databaseService_deleteTenant_def split: lookup.split)
qed (simp_all add: databaseService_deleteTenant_def split: lookup.split)

lemma getTestResultsByTenant_cong:
  "user_attempts d = user_attempts d' \<Longrightarrow> users d = users d' \<Longrightarrow>
   dataService_getTestResultsByTenant tm t d = dataService_getTestResultsByTenant tm t d'"
  by (simp add: dataService_getTestResultsByTenant_def dataService_getTestResults_def
      databaseService_getTestResults_def result_of_record_def [abs_def])

lemma deleteTenant_blocked:
  assumes "\<exists>u \<in> snd ` set (users db). ur_tenant_id u = Some t"
  shows "dataService_deleteTenant tm now t db = (Inl TenantHasUsers, db)"
proof -
  from assms have "dataService_getUsersByTenant tm t db \<noteq> []"
    by (auto simp: dataService_getUsersByTenant_def databaseService_getUsers_def
        user_of_record_def filter_empty_conv)
  then show ?thesis by (simp add: dataService_deleteTenant_def Let_def)
qed

lemma deleteTenant_unfold:
  assumes "\<not> (\<exists>u \<in> snd ` set (users db). ur_tenant_id u = Some t)"
  shows "dataService_deleteTenant tm now t db =
     (Inr (fst (databaseService_deleteTenant now t
             (fold (\<lambda>i d. snd (databaseService_deleteTestResult now i d))
                (map result_id (dataService_getTestResultsByTenant tm t db))
                (fold (\<lambda>i d. snd (databaseService_deleteQuizSet now i d))
                   (map quiz_id (dataService_getQuizSetsByTenant tm t db)) db)))),
      snd (databaseService_deleteTenant now t
             (fold (\<lambda>i d. snd (databaseService_deleteTestResult now i d))
                (map result_id (dataService_getTestResultsByTenant tm t db))
                (fold (\<lambda>i d. snd (databaseService_deleteQuizSet now i d))
                   (map quiz_id (dataService_getQuizSetsByTenant tm t db)) db))))"
proof -
  let ?d1 = "fold (\<lambda>i d. snd (databaseService_deleteQuizSet now i d))
               (map quiz_id (dataService_getQuizSetsByTenant tm t db)) db"
  from assms have e: "dataService_getUsersByTenant tm t db = []"
    by (auto simp: dataService_getUsersByTenant_def databaseService_getUsers_def
        user_of_record_def filter_empty_conv)
  have c: "dataService_getTestResultsByTenant tm t ?d1 = dataService_getTestResultsByTenant tm t db"
    by (rule getTestResultsByTenant_cong) simp_all
  show ?thesis
    using e c
    by (simp add: dataService_deleteTenant_def Let_def case_prod_unfold fold_map comp_def
        dataService_deleteQuizSet_def)
qed

lemma keyed_by_unique:
  "keyed_by ident t \<Longrightarrow> (k, r) \<in> set t \<Longrightarrow> (k, r') \<in> set t \<Longrightarrow> r' = r"
  by (metis keyed_by_def map_of_eq_Some_iff option.inject)

lemma keyed_by_ident: "keyed_by ident t \<Longrightarrow> (k, r) \<in> set t \<Longrightarrow> ident r = k"
  by (auto simp: keyed_by_def)

text \<open>
  The store that \<^verbatim>\<open>deleteTenant(t)\<close> leaves when no user blocks it. The rows removed
  are those \<open>in_scope t\<close>: for the empty string as \<open>t\<close>,
  \<^verbatim>\<open>getQuizSets('')\<close> and \<^verbatim>\<open>getTestResults('')\<close> return the system-wide lists, and
  every quiz set and every attempt goes.
\<close>

lemma deleteTenant_exact:
  assumes nu: "\<not> (\<exists>u \<in> snd ` set (users db). ur_tenant_id u = Some t)"
    and kq: "keyed_by qs_id (quiz_sets db)"
    and ka: "keyed_by ua_id (user_attempts db)"
    and dq: "distinct (map fst (quiz_questions db))"
  shows "fst (dataService_deleteTenant tm now t db) = Inr (table_get (tenants db) t \<noteq> Absent)"
    and "tenants (snd (dataService_deleteTenant tm now t db)) = AList.delete t (tenants db)"
    and "users (snd (dataService_deleteTenant tm now t db)) = users db"
    and "quiz_sets (snd (dataService_deleteTenant tm now t db)) =
           filter (\<lambda>(k, r). \<not> in_scope t (qs_tenant_id r)) (quiz_sets db)"
    and "quiz_questions (snd (dataService_deleteTenant tm now t db)) =
           filter (\<lambda>(k, q). \<not> (\<exists>r \<in> snd ` set (quiz_sets db).
                                   qs_id r = qq_quiz_set_id q \<and> in_scope t (qs_tenant_id r)))
             (quiz_questions db)"
    and "user_attempts (snd (dataService_deleteTenant tm now t db)) =
           filter (\<lambda>(k, a). \<not> in_scope t (ua_tenant_id a)) (user_attempts db)"
proof -
  note u = deleteTenant_unfold [OF nu, of tm now]
  let ?ids = "map quiz_id (dataService_getQuizSetsByTenant tm t db)"
  have ids: "set ?ids = {k. \<exists>r. (k, r) \<in> set (quiz_sets db) \<and> in_scope t (qs_tenant_id r)}"
    using getQuizSetsByTenant_ids [OF kq, of tm t] by simp
  let ?rids = "map result_id (dataService_getTestResultsByTenant tm t db)"
  have rids: "set ?rids = {k. \<exists>a. (k, a) \<in> set (user_attempts db) \<and> in_scope t (ua_tenant_id a)}"
    using getTestResultsByTenant_ids [OF ka, of tm t] by simp
  show "fst (dataService_deleteTenant tm now t db) = Inr (table_get (tenants db) t \<noteq> Absent)"
    by (simp add: u)
  show "tenants (snd (dataService_deleteTenant tm now t db)) = AList.delete t (tenants db)"
    by (simp add: u)
  show "users (snd (dataService_deleteTenant tm now t db)) = users db"
    by (simp add: u)
  have "quiz_sets (snd (dataService_deleteTenant tm now t db)) =
        filter (\<lambda>(k, r). k \<notin> set ?ids) (quiz_sets db)"
    by (simp add: u fold_deleteQuizSet_quiz_sets del: set_map)
  also have "\<dots> = filter (\<lambda>(k, r). \<not> in_scope t (qs_tenant_id r)) (quiz_sets db)"
    unfolding ids using keyed_by_unique [OF kq] by (intro filter_cong) auto
  finally show "quiz_sets (snd (dataService_deleteTenant tm now t db)) =
           filter (\<lambda>(k, r). \<not> in_scope t (qs_tenant_id r)) (quiz_sets db)" .
  have "quiz_questions (snd (dataService_deleteTenant tm now t db)) =
        filter (\<lambda>(k, q). \<not> (qq_quiz_set_id q \<in> set ?ids \<and>
                               table_get (quiz_sets db) (qq_quiz_set_id q) \<noteq> Absent))
          (quiz_questions db)"
    using dq by (simp add: u fold_deleteQuizSet_quiz_questions del: set_map)
  also have "\<dots> = filter (\<lambda>(k, q). \<not> (\<exists>r \<in> snd ` set (quiz_sets db).
                                   qs_id r = qq_quiz_set_id q \<and> in_scope t (qs_tenant_id r)))
             (quiz_questions db)"
    unfolding ids
  proof (intro filter_cong refl)
    fix x assume "x \<in> set (quiz_questions db)"
    obtain k q where x: "x = (k, q)" by (cases x)
    have "(\<exists>r. (qq_quiz_set_id q, r) \<in> set (quiz_sets db) \<and> in_scope t (qs_tenant_id r)) \<longleftrightarrow>
          (\<exists>r \<in> snd ` set (quiz_sets db). qs_id r = qq_quiz_set_id q \<and> in_scope t (qs_tenant_id r))"
    proof
      assume "\<exists>r. (qq_quiz_set_id q, r) \<in> set (quiz_sets db) \<and> in_scope t (qs_tenant_id r)"
      then obtain r where r: "(qq_quiz_set_id q, r) \<in> set (quiz_sets db)" "in_scope t (qs_tenant_id r)"
        by blast
      from keyed_by_ident [OF kq r(1)] r
      show "\<exists>r \<in> snd ` set (quiz_sets db). qs_id r = qq_quiz_set_id q \<and> in_scope t (qs_tenant_id r)"
        by force
    next
      assume "\<exists>r \<in> snd ` set (quiz_sets db). qs_id r = qq_quiz_set_id q \<and> in_scope t (qs_tenant_id r)"
      then obtain k' r where r: "(k', r) \<in> set (quiz_sets db)" "qs_id r = qq_quiz_set_id q"
          "in_scope t (qs_tenant_id r)"
        by auto
      from keyed_by_ident [OF kq r(1)] r
      show "\<exists>r. (qq_quiz_set_id q, r) \<in> set (quiz_sets db) \<and> in_scope t (qs_tenant_id r)"
        by auto
    qed
    moreover have "(\<exists>r. (qq_quiz_set_id q, r) \<in> set (quiz_sets db) \<and> in_scope t (qs_tenant_id r))
        \<Longrightarrow> table_get (quiz_sets db) (qq_quiz_set_id q) \<noteq> Absent"
      using kq by (auto simp: keyed_by_def table_get_Absent_iff)
    ultimately show "(case x of (k, q) \<Rightarrow>
            \<not> (qq_quiz_set_id q \<in> {k. \<exists>r. (k, r) \<in> set (quiz_sets db) \<and> in_scope t (qs_tenant_id r)} \<and>
               table_get (quiz_sets db) (qq_quiz_set_id q) \<noteq> Absent)) =
          (case x of (k, q) \<Rightarrow>
            \<not> (\<exists>r \<in> snd ` set (quiz_sets db).
                  qs_id r = qq_quiz_set_id q \<and> in_scope t (qs_tenant_id r)))"
      unfolding x by auto
  qed
  finally show "quiz_questions (snd (dataService_deleteTenant tm now t db)) =
           filter (\<lambda>(k, q). \<not> (\<exists>r \<in> snd ` set (quiz_sets db).
                                   qs_id r = qq_quiz_set_id q \<and> in_scope t (qs_tenant_id r)))
             (quiz_questions db)" .
  have "user_attempts (snd (dataService_deleteTenant tm now t db)) =
        filter (\<lambda>(k, a). k \<notin> set ?rids) (user_attempts db)"
    by (simp add: u fold_deleteTestResult_user_attempts del: set_map)
  also have "\<dots> = filter (\<lambda>(k, a). \<not> in_scope t (ua_tenant_id a)) (user_attempts db)"
    unfolding rids using keyed_by_unique [OF ka] by (intro filter_cong) auto
  finally show "user_attempts (snd (dataService_deleteTenant tm now t db)) =
           filter (\<lambda>(k, a). \<not> in_scope t (ua_tenant_id a)) (user_attempts db)" .
qed

text \<open>
  C1. When some user has \<open>tenantId = t\<close>, the adapter's \<^verbatim>\<open>deleteTenant(t)\<close> throws
  the tenant-has-users error and the store is what it was: no tenant, user, quiz set,
  question or attempt is touched. When no user has, \<open>t\<close> is the id of a tenant, and
  the quiz set and attempt tables are keyed by the ids of their rows (the keys of the
  question table distinct), it returns true and
  in the resulting store no quiz set of \<open>t\<close> is left, no question of a quiz set of
  \<open>t\<close> is left, no attempt of \<open>t\<close> is left and the tenant row is gone; the users
  are untouched, and for a non-empty \<open>t\<close> the quiz sets and attempts removed are
  exactly those of \<open>t\<close>.
\<close>

theorem deleteTenant_guard_and_cascade:
  "((\<exists>u \<in> snd ` set (users db). ur_tenant_id u = Some t) \<longrightarrow>
      dataService_deleteTenant tm now t db = (Inl TenantHasUsers, db)) \<and>
   (\<not> (\<exists>u \<in> snd ` set (users db). ur_tenant_id u = Some t) \<and>
    map_of (tenants db) t \<noteq> None \<and>
    keyed_by qs_id (quiz_sets db) \<and> keyed_by ua_id (user_attempts db) \<and>
    distinct (map fst (quiz_questions db)) \<longrightarrow>
      fst (dataService_deleteTenant tm now t db) = Inr True \<and>
      (\<forall>r \<in> snd ` set (quiz_sets (snd (dataService_deleteTenant tm now t db))).
         qs_tenant_id r \<noteq> Some t) \<and>
      (\<forall>q \<in> snd ` set (quiz_questions (snd (dataService_deleteTenant tm now t db))).
         \<forall>r \<in> snd ` set (quiz_sets db). qs_tenant_id r = Some t \<longrightarrow> qq_quiz_set_id q \<noteq> qs_id r) \<and>
      (\<forall>a \<in> snd ` set (user_attempts (snd (dataService_deleteTenant tm now t db))).
         ua_tenant_id a \<noteq> Some t) \<and>
      t \<notin> fst ` set (tenants (snd (dataService_deleteTenant tm now t db))) \<and>
      users (snd (dataService_deleteTenant tm now t db)) = users db \<and>
      (t \<noteq> [] \<longrightarrow>
         quiz_sets (snd (dataService_deleteTenant tm now t db)) =
           filter (\<lambda>(k, r). qs_tenant_id r \<noteq> Some t) (quiz_sets db) \<and>
         user_attempts (snd (dataService_deleteTenant tm now t db)) =
           filter (\<lambda>(k, a). ua_tenant_id a \<noteq> Some t) (user_attempts db)))"
proof (intro conjI impI)
  assume "\<exists>u \<in> snd ` set (users db). ur_tenant_id u = Some t"
  then show "dataService_deleteTenant tm now t db = (Inl TenantHasUsers, db)"
    by (rule deleteTenant_blocked)
next
  assume a: "\<not> (\<exists>u \<in> snd ` set (users db). ur_tenant_id u = Some t) \<and>
    map_of (tenants db) t \<noteq> None \<and>
    keyed_by qs_id (quiz_sets db) \<and> keyed_by ua_id (user_attempts db) \<and>
    distinct (map fst (quiz_questions db))"
  then have nu: "\<not> (\<exists>u \<in> snd ` set (users db). ur_tenant_id u = Some t)"
    and ex: "map_of (tenants db) t \<noteq> None"
    and kq: "keyed_by qs_id (quiz_sets db)" and ka: "keyed_by ua_id (user_attempts db)"
    and dq: "distinct (map fst (quiz_questions db))"
    by simp_all
  note e = deleteTenant_exact [OF nu kq ka dq, of tm now]
  show "fst (dataService_deleteTenant tm now t db) = Inr True"
    using ex by (simp add: e(1) table_get_Absent_iff)
  show "\<forall>r \<in> snd ` set (quiz_sets (snd (dataService_deleteTenant tm now t db))).
         qs_tenant_id r \<noteq> Some t"
    unfolding e(4) by (auto simp: in_scope_def)
  show "\<forall>q \<in> snd ` set (quiz_questions (snd (dataService_deleteTenant tm now t db))).
         \<forall>r \<in> snd ` set (quiz_sets db). qs_tenant_id r = Some t \<longrightarrow> qq_quiz_set_id q \<noteq> qs_id r"
    unfolding e(5) by (auto simp: in_scope_def)
  show "\<forall>a \<in> snd ` set (user_attempts (snd (dataService_deleteTenant tm now t db))).
         ua_tenant_id a \<noteq> Some t"
    unfolding e(6) by (auto simp: in_scope_def)
  show "t \<notin> fst ` set (tenants (snd (dataService_deleteTenant tm now t db)))"
    unfolding e(2) by (rule delete_notin_dom)
  show "users (snd (dataService_deleteTenant tm now t db)) = users db"
    by (rule e(3))
  {
    assume "t \<noteq> []"
    then show "quiz_sets (snd (dataService_deleteTenant tm now t db)) =
           filter (\<lambda>(k, r). qs_tenant_id r \<noteq> Some t) (quiz_sets db)"
      unfolding e(4) by (simp add: in_scope_def)
  }
  {
    assume "t \<noteq> []"
    then show "user_attempts (snd (dataService_deleteTenant tm now t db)) =
           filter (\<lambda>(k, a). ua_tenant_id a \<noteq> Some t) (user_attempts db)"
      unfolding e(6) by (simp add: in_scope_def)
  }
qed

theorem deleteTenant_guard_and_cascade_witness:
  "dataService_deleteTenant tm0 ''now'' ''t1'' org_db = (Inl TenantHasUsers, org_db) \<and>
   keyed_by qs_id (quiz_sets org_db) \<and> keyed_by ua_id (user_attempts org_db) \<and>
   distinct (map fst (quiz_questions org_db)) \<and>
   map_of (tenants org_db) ''t3'' \<noteq> None \<and>
   fst (dataService_deleteTenant tm0 ''now'' ''t3'' org_db) = Inr True \<and>
   map fst (tenants (snd (dataService_deleteTenant tm0 ''now'' ''t3'' org_db))) = [''t1'', ''t2''] \<and>
   map fst (quiz_sets (snd (dataService_deleteTenant tm0 ''now'' ''t3'' org_db))) = [''q2''] \<and>
   map fst (quiz_questions (snd (dataService_deleteTenant tm0 ''now'' ''t3'' org_db))) = [''k2''] \<and>
   map fst (user_attempts (snd (dataService_deleteTenant tm0 ''now'' ''t3'' org_db))) = [''a2''] \<and>
   users (snd (dataService_deleteTenant tm0 ''now'' ''t3'' org_db)) = users org_db"
proof -
  have b: "\<exists>u \<in> snd ` set (users org_db). ur_tenant_id u = Some ''t1''"
    by (simp add: org_db_def)
  have n: "\<not> (\<exists>u \<in> snd ` set (users org_db). ur_tenant_id u = Some ''t3'')"
    by (simp add: org_db_def)
  have k: "keyed_by qs_id (quiz_sets org_db)" "keyed_by ua_id (user_attempts org_db)"
      "distinct (map fst (quiz_questions org_db))" "map_of (tenants org_db) ''t3'' \<noteq> None"
    by (simp_all add: keyed_by_def org_db_def attempt_def)
  have t: "map fst (tenants (snd (dataService_deleteTenant tm0 ''now'' ''t3'' org_db))) = [''t1'', ''t2'']"
    by (subst deleteTenant_exact(2) [OF n k(1,2,3)]) (simp add: org_db_def)
  have q: "map fst (quiz_questions (snd (dataService_deleteTenant tm0 ''now'' ''t3'' org_db))) = [''k2'']"
    by (subst deleteTenant_exact(5) [OF n k(1,2,3)]) (simp add: org_db_def in_scope_def)
  have f: "map fst (filter (\<lambda>(k, r). qs_tenant_id r \<noteq> Some ''t3'') (quiz_sets org_db)) = [''q2'']"
      "map fst (filter (\<lambda>(k, a). ua_tenant_id a \<noteq> Some ''t3'') (user_attempts org_db)) = [''a2'']"
    by (simp_all add: org_db_def attempt_def)
  from deleteTenant_guard_and_cascade [of org_db "''t1''" tm0 "''now''"]
       deleteTenant_guard_and_cascade [of org_db "''t3''" tm0 "''now''"] b n k t q f
  show ?thesis by simp
qed

subsection \<open>Export followed by import\<close>

lemma map_of_defined_props:
  "distinct (map fst props) \<Longrightarrow>
   map_of (List.map_filter (\<lambda>(k, v). map_option (Pair k) v) props) n =
     Option.bind (map_of props n) (\<lambda>v. v)"
proof (induction props)
  case Nil
  then show ?case by (simp add: map_filter_simps)
next
  case (Cons p props)
  obtain k v where p: "p = (k, v)" by (cases p)
  from Cons.prems p have nk: "k \<notin> fst ` set props" and d: "distinct (map fst props)" by auto
  from nk have none: "map_of props k = None" by (simp add: map_of_eq_None_iff)
  show ?case
  proof (cases v)
    case None
    with p Cons.IH [OF d] none show ?thesis by (auto simp: map_filter_simps)
  next
    case (Some j)
    with p Cons.IH [OF d] show ?thesis by (simp add: map_filter_simps)
  qed
qed

lemma property_stringify_object:
  "distinct (map fst props) \<Longrightarrow>
   property (stringify_object props) n = Option.bind (map_of props n) (\<lambda>v. v)"
  by (simp add: stringify_object_def map_of_defined_props)

lemma as_optional_string_map_option [simp]:
  "as_optional_string (map_option JString v) = Some v"
  by (cases v) simp_all

lemma strings_of_map_JString [simp]: "strings_of (map JString xs) = Some xs"
  by (induction xs) simp_all

lemma as_TenantStatus_json [simp]: "as_TenantStatus (Some (json_of_TenantStatus s)) = Some s"
  by (cases s) (simp_all add: as_TenantStatus_def json_of_TenantStatus_def)

lemma as_Role_json [simp]: "as_Role (Some (json_of_Role r)) = Some r"
  by (cases r) (simp_all add: as_Role_def json_of_Role_def)

lemma as_UserStatus_json [simp]: "as_UserStatus (Some (json_of_UserStatus s)) = Some s"
  by (cases s) (simp_all add: as_UserStatus_def json_of_UserStatus_def)

lemma as_ChoiceType_json [simp]: "as_ChoiceType (Some (json_of_ChoiceType c)) = Some c"
  by (cases c) (simp_all add: as_ChoiceType_def json_of_ChoiceType_def)

lemma as_CorrectAnswer_json [simp]: "as_CorrectAnswer (Some (json_of_CorrectAnswer a)) = Some a"
  by (cases a) (simp_all add: json_of_CorrectAnswer_def)

lemma as_TenantSettings_json [simp]:
  "as_TenantSettings (Some (json_of_TenantSettings s)) = Some s"
  by (simp add: as_TenantSettings_def json_of_TenantSettings_def property_stringify_object)

lemma TenantRecord_roundtrip: "TenantRecord_of_json (json_of_TenantRecord r) = Some r"
  by (simp add: TenantRecord_of_json_def json_of_TenantRecord_def property_stringify_object)

lemma UserRecord_roundtrip: "UserRecord_of_json (json_of_UserRecord r) = Some r"
  by (simp add: UserRecord_of_json_def json_of_UserRecord_def property_stringify_object)

lemma QuizSetRecord_roundtrip: "QuizSetRecord_of_json (json_of_QuizSetRecord r) = Some r"
  by (simp add: QuizSetRecord_of_json_def json_of_QuizSetRecord_def property_stringify_object)

lemma QuizQuestionRecord_roundtrip:
  "QuizQuestionRecord_of_json (json_of_QuizQuestionRecord r) = Some r"
  by (simp add: QuizQuestionRecord_of_json_def json_of_QuizQuestionRecord_def
      property_stringify_object)

lemma UserAttemptRecord_roundtrip:
  "UserAttemptRecord_of_json (json_of_UserAttemptRecord r) = Some r"
  by (simp add: UserAttemptRecord_of_json_def json_of_UserAttemptRecord_def
      property_stringify_object)

lemma AttemptAnswerRecord_roundtrip:
  "AttemptAnswerRecord_of_json (json_of_AttemptAnswerRecord r) = Some r"
  by (simp add: AttemptAnswerRecord_of_json_def json_of_AttemptAnswerRecord_def
      property_stringify_object)

lemma UserSessionRecord_roundtrip:
  "UserSessionRecord_of_json (json_of_UserSessionRecord r) = Some r"
  by (simp add: UserSessionRecord_of_json_def json_of_UserSessionRecord_def
      property_stringify_object)

lemma MetadataRecord_roundtrip: "MetadataRecord_of_json (json_of_MetadataRecord r) = Some r"
  by (simp add: MetadataRecord_of_json_def json_of_MetadataRecord_def property_stringify_object)

lemma table_roundtrip:
  assumes "\<And>r. dec (enc r) = Some r"
  shows "table_of_json dec (Some (json_of_table enc t)) = Some t"
proof -
  have "rows_of_json dec (map (\<lambda>(k, r). (k, enc r)) t) = Some t"
    by (induction t) (auto simp: assms)
  then show ?thesis by (simp add: json_of_table_def)
qed

lemma DatabaseSchema_roundtrip:
  "DatabaseSchema_of_json (json_of_DatabaseSchema db) = Some db"
  by (simp add: DatabaseSchema_of_json_def json_of_DatabaseSchema_def property_stringify_object
      table_roundtrip TenantRecord_roundtrip UserRecord_roundtrip QuizSetRecord_roundtrip
      QuizQuestionRecord_roundtrip UserAttemptRecord_roundtrip AttemptAnswerRecord_roundtrip
      UserSessionRecord_roundtrip MetadataRecord_roundtrip)

lemma export_keys_truthy:
  "js_truthy (property (exportDatabase db) ''metadata'')"
  "js_truthy (property (exportDatabase db) ''users'')"
  "js_truthy (property (exportDatabase db) ''tenants'')"
  by (simp_all add: exportDatabase_def json_of_DatabaseSchema_def property_stringify_object
      json_of_table_def)

text \<open>
  C6. For every state of the store, importing what \<^verbatim>\<open>exportDatabase\<close> wrote succeeds
  (returns true), whatever the store held before, and the tenants, users, quiz sets,
  questions, attempts, answers and the session are those of the exported state: the
  store installed is the exported one with the metadata row that \<^verbatim>\<open>saveDatabase\<close>
  rewrites.
\<close>

theorem import_export_roundtrip:
  "importDatabase now (Some (exportDatabase db)) db0 = Some (True, saveDatabase now db) \<and>
   tenants (saveDatabase now db) = tenants db \<and>
   users (saveDatabase now db) = users db \<and>
   quiz_sets (saveDatabase now db) = quiz_sets db \<and>
   quiz_questions (saveDatabase now db) = quiz_questions db \<and>
   user_attempts (saveDatabase now db) = user_attempts db \<and>
   attempt_answers (saveDatabase now db) = attempt_answers db \<and>
   user_sessions (saveDatabase now db) = user_sessions db"
  using DatabaseSchema_roundtrip [of db]
  by (simp add: importDatabase_def export_keys_truthy) (simp add: exportDatabase_def)

theorem import_export_roundtrip_witness:
  "fst (the (importDatabase ''2024-07-01'' (Some (exportDatabase org_db)) empty_db)) = True \<and>
   users (snd (the (importDatabase ''2024-07-01'' (Some (exportDatabase org_db)) empty_db)))
     = users org_db \<and>
   tenants (snd (the (importDatabase ''2024-07-01'' (Some (exportDatabase org_db)) empty_db)))
     = tenants org_db \<and>
   metadata (snd (the (importDatabase ''2024-07-01'' (Some (exportDatabase org_db)) empty_db)))
     = [(''main'', \<lparr>md_version = ''2.2.0'', md_last_updated = ''2024-07-01''\<rparr>)] \<and>
   importDatabase ''2024-07-01'' (Some (JObject [(''users'', JObject [])])) org_db
     = Some (False, org_db) \<and>
   importDatabase ''2024-07-01'' None org_db = Some (False, org_db)"
proof -
  have m: "metadata (saveDatabase ''2024-07-01'' org_db)
             = [(''main'', \<lparr>md_version = ''2.2.0'', md_last_updated = ''2024-07-01''\<rparr>)]"
    by (simp add: saveDatabase_def org_db_def DB_VERSION_def)
  have f: "importDatabase ''2024-07-01'' (Some (JObject [(''users'', JObject [])])) org_db
             = Some (False, org_db)"
      "importDatabase ''2024-07-01'' None org_db = Some (False, org_db)"
    by (simp_all add: importDatabase_def)
  from import_export_roundtrip [of "''2024-07-01''" org_db empty_db] m f
  show ?thesis by simp
qed

subsection \<open>The operations keep the tables keyed by id\<close>

text \<open>
  The tables of the empty store are keyed by id, and the operations below, which write
  a table, keep it so.
\<close>

lemma keyed_by_Nil [simp]: "keyed_by ident []"
  by (simp add: keyed_by_def)

lemma keyed_by_update:
  assumes "keyed_by ident t" and "ident r = k"
  shows "keyed_by ident (AList.update k r t)"
proof -
  from assms(1) have d: "distinct (map fst (AList.update k r t))"
    by (simp add: keyed_by_def distinct_update)
  have "ident r' = k'" if m: "(k', r') \<in> set (AList.update k r t)" for k' r'
  proof -
    from d m have "map_of (AList.update k r t) k' = Some r'" by simp
    then have "((map_of t)(k \<mapsto> r)) k' = Some r'" by (simp add: update_conv')
    then show ?thesis
      using assms by (cases "k' = k") (auto dest: map_of_SomeD simp: keyed_by_def)
  qed
  with d show ?thesis by (auto simp: keyed_by_def)
qed

lemma keyed_by_delete:
  assumes "keyed_by ident t"
  shows "keyed_by ident (AList.delete k t)"
proof -
  from assms have "distinct (map fst (AList.delete k t))"
    by (simp add: keyed_by_def distinct_delete)
  moreover have "set (AList.delete k t) \<subseteq> set t" by (auto simp: AList.delete_eq)
  ultimately show ?thesis using assms by (auto simp: keyed_by_def)
qed

lemma keyed_by_filter: "keyed_by ident t \<Longrightarrow> keyed_by ident (filter P t)"
  by (auto simp: keyed_by_def distinct_map_filter)

lemma createUser_keyed:
  "keyed_by ur_id (users db) \<Longrightarrow>
   keyed_by ur_id (users (snd (dataService_createUser now userId name email password role tenantId db)))"
  by (auto simp: dataService_createUser_def databaseService_createUser_def keyed_by_update
      split: option.split)

lemma createUserWithStatus_keyed:
  "keyed_by ur_id (users db) \<Longrightarrow>
   keyed_by ur_id (users (snd (databaseService_createUserWithStatus now user password db)))"
  by (auto simp: databaseService_createUserWithStatus_def keyed_by_update split: option.split)

lemma updateUserStatus_keyed:
  assumes "keyed_by ur_id (users db)"
  shows "keyed_by ur_id (users (snd (databaseService_updateUserStatus now userId status db)))"
proof (cases "map_of (users db) userId")
  case None
  with assms show ?thesis
    by (simp add: databaseService_updateUserStatus_def table_get_def split: lookup.split)
next
  case (Some r)
  then have "(userId, r) \<in> set (users db)" by (rule map_of_SomeD)
  with assms have "ur_id r = userId" by (rule keyed_by_ident)
  with assms Some show ?thesis
    by (simp add: databaseService_updateUserStatus_def table_get_Own keyed_by_update)
qed

lemma approveTenant_keyed:
  assumes "keyed_by ur_id (users db)"
  shows "keyed_by ur_id (users (snd (dataService_approveTenant tm now t actor db)))"
proof (cases "map_of (tenants db) t")
  case None
  with assms show ?thesis
    by (simp add: dataService_approveTenant_def dataService_getTenant_def
        databaseService_getTenant_def table_get_def)
next
  case (Some r)
  from assms show ?thesis
    unfolding approveTenant_users [OF assms Some]
    by (auto simp: keyed_by_def case_prod_unfold comp_def)
qed

lemma createTenant_keyed:
  "keyed_by tn_id (tenants db) \<Longrightarrow>
   keyed_by tn_id (tenants (snd (databaseService_createTenant now tenant db)))"
  by (simp add: databaseService_createTenant_def keyed_by_update)

lemma saveTestResult_keyed:
  "keyed_by ua_id (user_attempts db) \<Longrightarrow>
   keyed_by ua_id (user_attempts (snd (dataService_saveTestResult now attemptId result db)))"
  by (simp add: dataService_saveTestResult_def databaseService_saveTestResult_def Let_def
      keyed_by_update)

lemma deleteQuizSet_keyed:
  "keyed_by qs_id (quiz_sets db) \<Longrightarrow>
   keyed_by qs_id (quiz_sets (snd (databaseService_deleteQuizSet now i db)))"
  by (simp add: deleteQuizSet_quiz_sets keyed_by_delete)

lemma deleteQuizSet_distinct:
  "distinct (map fst (quiz_questions db)) \<Longrightarrow>
   distinct (map fst (quiz_questions (snd (databaseService_deleteQuizSet now i db))))"
  by (simp add: deleteQuizSet_quiz_questions distinct_map_filter)

lemma deleteTestResult_keyed:
  "keyed_by ua_id (user_attempts db) \<Longrightarrow>
   keyed_by ua_id (user_attempts (snd (databaseService_deleteTestResult now i db)))"
  by (simp add: deleteTestResult_user_attempts keyed_by_delete)

end
